theory Spec2Isabelle
  imports Main "HOL-Library.Word" "HOL-Library.Sublist"
begin

section \<open>Errors\<close>

text \<open>
  Every exception the modelled code can raise is a value. The first group are the Python
  exceptions raised by the source and by the library calls it makes. The last two are the
  error names of the specification's taxonomy; no path of the source raises them.
\<close>

datatype error =
    KeyError
  | TypeError
  | ValueError
  | AttributeError
  | UnicodeDecodeError
  | UnicodeEncodeError
  | FormatError
  | StackError
  | ExtraData
  | JSONDecodeError
  | BackendError string
  | ConverterError string
  | UnsupportedTypeError
  | MalformedMetadataError

section \<open>The build command group (flytekit/clis/sdk_in_container/build.py)\<close>

subsection \<open>Path helpers of posixpath used by get_command\<close>

text \<open>\<open>s.split(sep)\<close> for a one-character separator.\<close>

fun split_sep :: "char \<Rightarrow> string \<Rightarrow> string list" where
  "split_sep s [] = [[]]"
| "split_sep s (c # cs) =
     (if c = s then [] # split_sep s cs
      else (case split_sep s cs of
              [] \<Rightarrow> [[c]]
            | w # ws \<Rightarrow> (c # w) # ws))"

text \<open>
  \<open>[x for x in abspath(p).split(sep) if x]\<close>. The two paths given to it here are the
  resolved file name and the working directory, both absolute and normalised already, which
  \<open>abspath\<close> returns as they are.
\<close>

definition path_parts :: "string \<Rightarrow> string list" where
  "path_parts p = filter (\<lambda>x. x \<noteq> []) (split_sep (CHR ''/'') p)"

text \<open>\<open>os.path.commonprefix\<close> of two component lists: their longest common prefix.\<close>

fun commonprefix :: "string list \<Rightarrow> string list \<Rightarrow> string list" where
  "commonprefix (x # xs) (y # ys) = (if x = y then x # commonprefix xs ys else [])"
| "commonprefix _ _ = []"

text \<open>The loop of \<open>posixpath.join(a, *p)\<close>, with \<open>path\<close> the accumulator.\<close>

fun join_loop :: "string \<Rightarrow> string list \<Rightarrow> string" where
  "join_loop path [] = path"
| "join_loop path (b # p) =
     (if prefix ''/'' b then join_loop b p
      else if path = [] \<or> last path = CHR ''/'' then join_loop (path @ b) p
      else join_loop (path @ ''/'' @ b) p)"

definition relpath :: "string \<Rightarrow> string \<Rightarrow> error + string" where
  "relpath path start =
     (if path = [] then Inl ValueError
      else
        let start_list = path_parts start;
            path_list = path_parts path;
            i = length (commonprefix start_list path_list);
            rel_list = replicate (length start_list - i) ''..'' @ drop i path_list
        in (case rel_list of
              [] \<Rightarrow> Inr ''.''
            | a # p \<Rightarrow> Inr (join_loop a p)))"

text \<open>\<open>PurePath.relative_to\<close>, as the string of the relative path; ValueError when the
  file is not below the root.\<close>

definition relative_to :: "string \<Rightarrow> string \<Rightarrow> error + string" where
  "relative_to path root =
     (let rs = path_parts root; ps = path_parts path
      in if prefix rs ps
         then (case drop (length rs) ps of
                 [] \<Rightarrow> Inr ''.''
               | a # p \<Rightarrow> Inr (join_loop a p))
         else Inl ValueError)"

text \<open>\<open>os.path.splitext(p)[0]\<close>: the extension starts at the last dot of the last
  component, unless only dots come before it there.\<close>

definition splitext_root :: "string \<Rightarrow> string" where
  "splitext_root p =
     (let name = rev (takeWhile (\<lambda>c. c \<noteq> CHR ''/'') (rev p));
          dir = rev (dropWhile (\<lambda>c. c \<noteq> CHR ''/'') (rev p))
      in if CHR ''.'' \<in> set name
         then (let stem = rev (tl (dropWhile (\<lambda>c. c \<noteq> CHR ''.'') (rev name)))
               in if \<forall>c \<in> set stem. c = CHR ''.'' then p else dir @ stem)
         else p)"

definition replace_sep :: "string \<Rightarrow> string" where
  "replace_sep p = map (\<lambda>c. if c = CHR ''/'' then CHR ''.'' else c) p"

subsection \<open>WorkflowCommand.get_command\<close>

text \<open>
  The click context carries \<open>ctx.obj\<close>, a dictionary of dictionaries (or None). The keys
  \<open>RUN_LEVEL_PARAMS_KEY\<close>, \<open>CTX_PROJECT_ROOT\<close> and \<open>CTX_MODULE\<close> are constants of modules
  that are not part of the excerpt; they are parameters here, as are the two helpers
  \<open>_find_project_root\<close> and \<open>load_naive_entity\<close>.
\<close>

type_synonym params = "string \<rightharpoonup> string"

record click_context =
  obj :: "(string \<rightharpoonup> params) option"

record cli_consts =
  RUN_LEVEL_PARAMS_KEY :: string
  CTX_PROJECT_ROOT :: string
  CTX_MODULE :: string

record 'e cli_env =
  getcwd :: string
  find_project_root :: "string \<Rightarrow> error + string"
  load_naive_entity :: "string \<Rightarrow> string \<Rightarrow> string \<Rightarrow> error + 'e"

datatype cli_event = LoadEntity string string string

record 'e command =
  cmd_name :: string
  cmd_entity :: 'e
  cmd_help :: string

text \<open>\<open>ctx.obj[RUN_LEVEL_PARAMS_KEY][k] = v\<close>.\<close>

definition set_run_param ::
  "cli_consts \<Rightarrow> string \<Rightarrow> string \<Rightarrow> click_context \<Rightarrow> error + click_context" where
  "set_run_param K k v ctx =
     (case obj ctx of
        None \<Rightarrow> Inl TypeError
      | Some d \<Rightarrow>
          (case d (RUN_LEVEL_PARAMS_KEY K) of
             None \<Rightarrow> Inl KeyError
           | Some ps \<Rightarrow> Inr (ctx\<lparr>obj := Some (d(RUN_LEVEL_PARAMS_KEY K \<mapsto> ps(k \<mapsto> v)))\<rparr>)))"

text \<open>
  The result is the returned command or the raised error, together with the click context
  as the call leaves it and the entities it loaded. \<open>filename\<close> is \<open>self._filename\<close>, the
  resolved absolute path of the file.
\<close>

definition get_command ::
  "cli_consts \<Rightarrow> 'e cli_env \<Rightarrow> string \<Rightarrow> click_context \<Rightarrow> string
     \<Rightarrow> (error + 'e command) \<times> click_context \<times> cli_event list" where
  "get_command K env filename ctx exe_entity =
     (case relpath filename (getcwd env) of
        Inl e \<Rightarrow> (Inl e, ctx, [])
      | Inr rel_path \<Rightarrow>
          if prefix ''..'' rel_path then (Inl ValueError, ctx, [])
          else
            (case find_project_root env filename of
               Inl e \<Rightarrow> (Inl e, ctx, [])
             | Inr project_root \<Rightarrow>
                 (case relative_to filename project_root of
                    Inl e \<Rightarrow> (Inl e, ctx, [])
                  | Inr rel \<Rightarrow>
                      let module = replace_sep (splitext_root rel)
                      in (case set_run_param K (CTX_PROJECT_ROOT K) project_root ctx of
                            Inl e \<Rightarrow> (Inl e, ctx, [])
                          | Inr ctx1 \<Rightarrow>
                              (case set_run_param K (CTX_MODULE K) module ctx1 of
                                 Inl e \<Rightarrow> (Inl e, ctx1, [])
                               | Inr ctx2 \<Rightarrow>
                                   (case load_naive_entity env module exe_entity project_root of
                                      Inl e \<Rightarrow>
                                        (Inl e, ctx2, [LoadEntity module exe_entity project_root])
                                    | Inr entity \<Rightarrow>
                                        (Inr \<lparr>cmd_name = exe_entity, cmd_entity = entity,
                                              cmd_help = ''Build an image for '' @ module @ ''.''
                                                         @ exe_entity @ ''.''\<rparr>,
                                         ctx2,
                                         [LoadEntity module exe_entity project_root])))))))"

text \<open>The claim's own notion: the file lies in the working directory or below it.\<close>

definition under_cwd :: "string \<Rightarrow> string \<Rightarrow> bool" where
  "under_cwd filename cwd = prefix (path_parts cwd) (path_parts filename)"

subsection \<open>BuildCommand.list_commands\<close>

text \<open>
  \<open>Path(".").glob("*.py")\<close> scans the entries of the working directory and keeps the names
  that the compiled pattern matches in full. \<open>fnmatch\<close> is that match for patterns made of
  literal characters, \<open>*\<close> and \<open>?\<close> (bracket classes do not occur in \<open>*.py\<close>).
\<close>

fun fnmatch :: "string \<Rightarrow> string \<Rightarrow> bool" where
  "fnmatch [] n = (n = [])"
| "fnmatch (p # ps) [] = (p = CHR ''*'' \<and> fnmatch ps [])"
| "fnmatch (p # ps) (c # n) =
     (if p = CHR ''*'' then fnmatch ps (c # n) \<or> fnmatch (p # ps) n
      else (p = CHR ''?'' \<or> p = c) \<and> fnmatch ps n)"

text \<open>A directory tree; the working directory is given by its entries, in scan order.\<close>

datatype fsnode = File | Dir "(string \<times> fsnode) list"

definition glob :: "string \<Rightarrow> (string \<times> fsnode) list \<Rightarrow> string list" where
  "glob pat entries = filter (fnmatch pat) (map fst entries)"

definition list_commands :: "(string \<times> fsnode) list \<Rightarrow> string list" where
  "list_commands entries = filter (\<lambda>p. p \<noteq> ''__init__.py'') (glob ''*.py'' entries)"

text \<open>The claim's own notion of a name matching \<open>*.py\<close>: anything followed by \<open>.py\<close>.\<close>

definition matches_star_py :: "string \<Rightarrow> bool" where
  "matches_star_py n = (\<exists>stem. n = stem @ ''.py'')"

section \<open>The BigQuery agent (plugins/flytekit-bigquery/flytekitplugins/bigquery/agent.py)\<close>

subsection \<open>Python strings, bytes and UTF-8\<close>

text \<open>
  A \<open>bytes\<close> value is a list of 8-bit words. The content of a Python \<open>str\<close> that
  travels through the codecs is its list of code points; names that are only compared or
  concatenated (parameter names, status strings, table names) are HOL strings.
\<close>

type_synonym byte = "8 word"
type_synonym pystr = "nat list"

definition is_cont :: "nat \<Rightarrow> bool" where
  "is_cont b = (0x80 \<le> b \<and> b < 0xC0)"

text \<open>
  \<open>str.encode("utf-8")\<close> in strict mode, one code point at a time: a surrogate cannot be
  encoded. (A Python string holds no code point from \<open>0x110000\<close> on.)
\<close>

definition utf8_encode_cp :: "nat \<Rightarrow> nat list option" where
  "utf8_encode_cp c =
     (if c < 0x80 then Some [c]
      else if c < 0x800 then Some [0xC0 + c div 64, 0x80 + c mod 64]
      else if c < 0x10000 then
        (if 0xD800 \<le> c \<and> c < 0xE000 then None
         else Some [0xE0 + c div 4096, 0x80 + c div 64 mod 64, 0x80 + c mod 64])
      else if c < 0x110000 then
        Some [0xF0 + c div 262144, 0x80 + c div 4096 mod 64, 0x80 + c div 64 mod 64,
              0x80 + c mod 64]
      else None)"

fun utf8_encode_nat :: "pystr \<Rightarrow> nat list option" where
  "utf8_encode_nat [] = Some []"
| "utf8_encode_nat (c # cs) =
     (case utf8_encode_cp c of
        None \<Rightarrow> None
      | Some bs \<Rightarrow> map_option ((@) bs) (utf8_encode_nat cs))"

text \<open>
  \<open>bytes.decode("utf-8")\<close> in strict mode: an invalid start byte, a missing or wrong
  continuation byte, an overlong form, a surrogate and a value above \<open>0x10FFFF\<close> are all
  rejected.
\<close>

fun utf8_decode_nat :: "nat list \<Rightarrow> pystr option" where
  "utf8_decode_nat [] = Some []"
| "utf8_decode_nat (b # bs) =
     (if b < 0x80 then map_option ((#) b) (utf8_decode_nat bs)
      else if b < 0xC0 then None
      else if b < 0xE0 then
        (case bs of
           c1 # r \<Rightarrow>
             (let cp = (b - 0xC0) * 64 + (c1 - 0x80)
              in if is_cont c1 \<and> 0x80 \<le> cp then map_option ((#) cp) (utf8_decode_nat r)
                 else None)
         | _ \<Rightarrow> None)
      else if b < 0xF0 then
        (case bs of
           c1 # c2 # r \<Rightarrow>
             (let cp = (b - 0xE0) * 4096 + (c1 - 0x80) * 64 + (c2 - 0x80)
              in if is_cont c1 \<and> is_cont c2 \<and> 0x800 \<le> cp \<and> \<not> (0xD800 \<le> cp \<and> cp < 0xE000)
                 then map_option ((#) cp) (utf8_decode_nat r)
                 else None)
         | _ \<Rightarrow> None)
      else if b < 0xF8 then
        (case bs of
           c1 # c2 # c3 # r \<Rightarrow>
             (let cp = (b - 0xF0) * 262144 + (c1 - 0x80) * 4096 + (c2 - 0x80) * 64 + (c3 - 0x80)
              in if is_cont c1 \<and> is_cont c2 \<and> is_cont c3 \<and> 0x10000 \<le> cp \<and> cp < 0x110000
                 then map_option ((#) cp) (utf8_decode_nat r)
                 else None)
         | _ \<Rightarrow> None)
      else None)"

definition utf8_decode :: "byte list \<Rightarrow> error + pystr" where
  "utf8_decode bs =
     (case utf8_decode_nat (map unat bs) of
        None \<Rightarrow> Inl UnicodeDecodeError
      | Some s \<Rightarrow> Inr s)"

text \<open>The code points of an ASCII literal.\<close>

definition py :: "string \<Rightarrow> pystr" where
  "py s = map of_char s"

subsection \<open>The values msgpack produces\<close>

text \<open>
  The Python objects \<open>msgpack.unpackb\<close> can return with its default options. A float is
  kept as the IEEE bits it was read from; a dictionary is its list of items in insertion
  order, with distinct keys.
\<close>

datatype pyobj =
    PNone
  | PBool bool
  | PInt int
  | PFloat32 "32 word"
  | PFloat64 "64 word"
  | PStr pystr
  | PBytes "byte list"
  | PList "pyobj list"
  | PDict "(pyobj \<times> pyobj) list"
  | PExtType int "byte list"
  | PTimestamp int nat

text \<open>\<open>d[k] = v\<close> on a dictionary: an existing key keeps its place and gets the new value.\<close>

fun dict_setitem :: "('k \<times> 'v) list \<Rightarrow> 'k \<Rightarrow> 'v \<Rightarrow> ('k \<times> 'v) list" where
  "dict_setitem [] k v = [(k, v)]"
| "dict_setitem ((k', v') # d) k v =
     (if k' = k then (k, v) # d else (k', v') # dict_setitem d k v)"

subsection \<open>msgpack.packb on the dictionaries create gives it\<close>

text \<open>Big-endian numbers: \<open>be_bytes k n\<close> writes \<open>n\<close> on \<open>k\<close> bytes, \<open>be_nat\<close> reads
  an unsigned and \<open>be_int\<close> a two's complement value.\<close>

fun be_bytes :: "nat \<Rightarrow> nat \<Rightarrow> byte list" where
  "be_bytes 0 n = []"
| "be_bytes (Suc k) n = be_bytes k (n div 256) @ [of_nat (n mod 256)]"

definition be_nat :: "byte list \<Rightarrow> nat" where
  "be_nat bs = foldl (\<lambda>a b. a * 256 + unat b) 0 bs"

definition be_int :: "byte list \<Rightarrow> int" where
  "be_int bs =
     (let n = be_nat bs; w = 256 ^ length bs
      in if w \<le> 2 * n then int n - int w else int n)"

text \<open>
  A \<open>str\<close> is written as its UTF-8 bytes behind the shortest header that holds their
  number (\<open>use_bin_type\<close> is on by default, so the one-byte length form is used); more
  than \<open>2^32 - 1\<close> bytes are refused.
\<close>

definition pack_str :: "pystr \<Rightarrow> error + byte list" where
  "pack_str s =
     (case utf8_encode_nat s of
        None \<Rightarrow> Inl UnicodeEncodeError
      | Some ns \<Rightarrow>
          let l = length ns; body = map of_nat ns
          in if l < 32 then Inr (of_nat (0xA0 + l) # body)
             else if l < 256 then Inr (0xD9 # be_bytes 1 l @ body)
             else if l < 65536 then Inr (0xDA # be_bytes 2 l @ body)
             else if l < 2 ^ 32 then Inr (0xDB # be_bytes 4 l @ body)
             else Inl ValueError)"

definition pack_map_header :: "nat \<Rightarrow> error + byte list" where
  "pack_map_header n =
     (if n < 16 then Inr [of_nat (0x80 + n)]
      else if n < 65536 then Inr (0xDE # be_bytes 2 n)
      else if n < 2 ^ 32 then Inr (0xDF # be_bytes 4 n)
      else Inl ValueError)"

fun pack_items :: "(pystr \<times> pystr) list \<Rightarrow> error + byte list" where
  "pack_items [] = Inr []"
| "pack_items ((k, v) # kvs) =
     (case pack_str k of
        Inl e \<Rightarrow> Inl e
      | Inr kb \<Rightarrow>
          (case pack_str v of
             Inl e \<Rightarrow> Inl e
           | Inr vb \<Rightarrow>
               (case pack_items kvs of
                  Inl e \<Rightarrow> Inl e
                | Inr rest \<Rightarrow> Inr (kb @ vb @ rest))))"

text \<open>\<open>msgpack.packb(d)\<close> for a dictionary \<open>d\<close> whose keys and values are all \<open>str\<close>.\<close>

definition packb :: "(pystr \<times> pystr) list \<Rightarrow> error + byte list" where
  "packb d =
     (case pack_map_header (length d) of
        Inl e \<Rightarrow> Inl e
      | Inr h \<Rightarrow>
          (case pack_items d of
             Inl e \<Rightarrow> Inl e
           | Inr body \<Rightarrow> Inr (h @ body)))"

subsection \<open>msgpack.unpackb\<close>

text \<open>
  The unpacker of msgpack 1.0 with the defaults of \<open>unpackb\<close>: \<open>raw=False\<close> (a str
  is decoded as strict UTF-8), \<open>strict_map_key=True\<close> (a map key is a str or a bytes),
  \<open>timestamp=0\<close>, the extension hook \<open>ExtType\<close>, and every length limit derived from
  the size of the buffer. It reads one head at a time and keeps the containers under
  construction on a stack of at most 1024 frames.
\<close>

datatype head = Obj pyobj | ArrayHdr nat | MapHdr nat

definition mk_str :: "byte list \<Rightarrow> error + pyobj" where
  "mk_str bs = (case utf8_decode bs of Inl e \<Rightarrow> Inl e | Inr s \<Rightarrow> Inr (PStr s))"

definition mk_bin :: "byte list \<Rightarrow> error + pyobj" where
  "mk_bin bs = Inr (PBytes bs)"

text \<open>The extension type \<open>-1\<close> is a timestamp of 4, 8 or 12 bytes; \<open>ExtType\<close> accepts
  the type codes 0 to 127 only.\<close>

definition mk_timestamp :: "byte list \<Rightarrow> error + pyobj" where
  "mk_timestamp d =
     (if length d = 4 then Inr (PTimestamp (int (be_nat d)) 0)
      else if length d = 8 then
        (let v = be_nat d; nsec = v div 2 ^ 34; sec = v mod 2 ^ 34
         in if nsec < 1000000000 then Inr (PTimestamp (int sec) nsec) else Inl ValueError)
      else if length d = 12 then
        (let nsec = be_nat (take 4 d); sec = be_int (drop 4 d)
         in if nsec < 1000000000 then Inr (PTimestamp sec nsec) else Inl ValueError)
      else Inl ValueError)"

definition mk_ext :: "byte \<Rightarrow> byte list \<Rightarrow> error + pyobj" where
  "mk_ext code d =
     (let t = sint code
      in if t = -1 then mk_timestamp d
         else if 0 \<le> t then Inr (PExtType t d)
         else Inl ValueError)"

text \<open>
  The readers take the bytes after the head byte and return the head together with the
  number of those bytes they used. Too few bytes is the error of an incomplete input.
\<close>

definition read_fixed ::
  "nat \<Rightarrow> (byte list \<Rightarrow> error + pyobj) \<Rightarrow> byte list \<Rightarrow> error + head \<times> nat" where
  "read_fixed n mk r =
     (if length r < n then Inl ValueError
      else (case mk (take n r) of Inl e \<Rightarrow> Inl e | Inr v \<Rightarrow> Inr (Obj v, n)))"

definition read_raw ::
  "nat \<Rightarrow> nat \<Rightarrow> (byte list \<Rightarrow> error + pyobj) \<Rightarrow> byte list \<Rightarrow> error + head \<times> nat" where
  "read_raw lim k mk r =
     (if length r < k then Inl ValueError
      else
        let n = be_nat (take k r)
        in if lim < n \<or> length r < k + n then Inl ValueError
           else (case mk (take n (drop k r)) of
                   Inl e \<Rightarrow> Inl e
                 | Inr v \<Rightarrow> Inr (Obj v, k + n)))"

definition read_ext_body :: "nat \<Rightarrow> nat \<Rightarrow> byte list \<Rightarrow> error + head \<times> nat" where
  "read_ext_body k n r =
     (if length r < k + 1 + n then Inl ValueError
      else (case mk_ext (r ! k) (take n (drop (k + 1) r)) of
              Inl e \<Rightarrow> Inl e
            | Inr v \<Rightarrow> Inr (Obj v, k + 1 + n)))"

definition read_ext :: "nat \<Rightarrow> nat \<Rightarrow> byte list \<Rightarrow> error + head \<times> nat" where
  "read_ext lim k r =
     (if length r < k then Inl ValueError
      else
        let n = be_nat (take k r)
        in if lim < n then Inl ValueError else read_ext_body k n r)"

definition read_len :: "nat \<Rightarrow> (nat \<Rightarrow> head) \<Rightarrow> byte list \<Rightarrow> error + head \<times> nat" where
  "read_len k mk r =
     (if length r < k then Inl ValueError else Inr (mk (be_nat (take k r)), k))"

definition read_head :: "nat \<Rightarrow> byte \<Rightarrow> byte list \<Rightarrow> error + head \<times> nat" where
  "read_head lim b r =
     (let c = unat b
      in if c < 0x80 then Inr (Obj (PInt (int c)), 0)
         else if c < 0x90 then Inr (MapHdr (c - 0x80), 0)
         else if c < 0xA0 then Inr (ArrayHdr (c - 0x90), 0)
         else if c < 0xC0 then read_fixed (c - 0xA0) mk_str r
         else if c = 0xC0 then Inr (Obj PNone, 0)
         else if c = 0xC1 then Inl FormatError
         else if c = 0xC2 then Inr (Obj (PBool False), 0)
         else if c = 0xC3 then Inr (Obj (PBool True), 0)
         else if c = 0xC4 then read_raw lim 1 mk_bin r
         else if c = 0xC5 then read_raw lim 2 mk_bin r
         else if c = 0xC6 then read_raw lim 4 mk_bin r
         else if c = 0xC7 then read_ext lim 1 r
         else if c = 0xC8 then read_ext lim 2 r
         else if c = 0xC9 then read_ext lim 4 r
         else if c = 0xCA then read_fixed 4 (\<lambda>d. Inr (PFloat32 (of_nat (be_nat d)))) r
         else if c = 0xCB then read_fixed 8 (\<lambda>d. Inr (PFloat64 (of_nat (be_nat d)))) r
         else if c = 0xCC then read_fixed 1 (\<lambda>d. Inr (PInt (int (be_nat d)))) r
         else if c = 0xCD then read_fixed 2 (\<lambda>d. Inr (PInt (int (be_nat d)))) r
         else if c = 0xCE then read_fixed 4 (\<lambda>d. Inr (PInt (int (be_nat d)))) r
         else if c = 0xCF then read_fixed 8 (\<lambda>d. Inr (PInt (int (be_nat d)))) r
         else if c = 0xD0 then read_fixed 1 (\<lambda>d. Inr (PInt (be_int d))) r
         else if c = 0xD1 then read_fixed 2 (\<lambda>d. Inr (PInt (be_int d))) r
         else if c = 0xD2 then read_fixed 4 (\<lambda>d. Inr (PInt (be_int d))) r
         else if c = 0xD3 then read_fixed 8 (\<lambda>d. Inr (PInt (be_int d))) r
         else if c = 0xD4 then read_ext_body 0 1 r
         else if c = 0xD5 then read_ext_body 0 2 r
         else if c = 0xD6 then read_ext_body 0 4 r
         else if c = 0xD7 then read_ext_body 0 8 r
         else if c = 0xD8 then read_ext_body 0 16 r
         else if c = 0xD9 then read_raw lim 1 mk_str r
         else if c = 0xDA then read_raw lim 2 mk_str r
         else if c = 0xDB then read_raw lim 4 mk_str r
         else if c = 0xDC then read_len 2 ArrayHdr r
         else if c = 0xDD then read_len 4 ArrayHdr r
         else if c = 0xDE then read_len 2 MapHdr r
         else if c = 0xDF then read_len 4 MapHdr r
         else Inr (Obj (PInt (int c - 256)), 0))"

text \<open>A frame is a container under construction: the number of items still to come and
  what has been read of it.\<close>

datatype frame =
    FArray nat "pyobj list"
  | FMapKey nat "(pyobj \<times> pyobj) list"
  | FMapValue nat "(pyobj \<times> pyobj) list" pyobj

datatype pushed = Done pyobj | More "frame list" | Failed error

definition key_allowed :: "pyobj \<Rightarrow> bool" where
  "key_allowed k = (case k of PStr _ \<Rightarrow> True | PBytes _ \<Rightarrow> True | _ \<Rightarrow> False)"

text \<open>A finished object goes into the innermost open container, which may finish in turn.
  The key of a map item is checked when its value has been read.\<close>

fun push :: "pyobj \<Rightarrow> frame list \<Rightarrow> pushed" where
  "push v [] = Done v"
| "push v (FArray n acc # st) =
     (if n \<le> 1 then push (PList (rev (v # acc))) st
      else More (FArray (n - 1) (v # acc) # st))"
| "push v (FMapKey n d # st) = More (FMapValue n d v # st)"
| "push v (FMapValue n d k # st) =
     (if \<not> key_allowed k then Failed ValueError
      else
        let d' = dict_setitem d k v
        in if n \<le> 1 then push (PDict d') st else More (FMapKey (n - 1) d' # st))"

definition step_head :: "nat \<Rightarrow> head \<Rightarrow> frame list \<Rightarrow> pushed" where
  "step_head lim h st =
     (case h of
        Obj v \<Rightarrow> push v st
      | ArrayHdr n \<Rightarrow>
          if 1024 \<le> length st then Failed StackError
          else if lim < n then Failed ValueError
          else if n = 0 then push (PList []) st
          else More (FArray n [] # st)
      | MapHdr n \<Rightarrow>
          if 1024 \<le> length st then Failed StackError
          else if lim div 2 < n then Failed ValueError
          else if n = 0 then push (PDict []) st
          else More (FMapKey n [] # st))"

fun unpack_loop :: "nat \<Rightarrow> frame list \<Rightarrow> byte list \<Rightarrow> error + pyobj \<times> byte list" where
  "unpack_loop lim st [] = Inl ValueError"
| "unpack_loop lim st (b # r) =
     (case read_head lim b r of
        Inl e \<Rightarrow> Inl e
      | Inr (h, k) \<Rightarrow>
          (case step_head lim h st of
             Failed e \<Rightarrow> Inl e
           | Done v \<Rightarrow> Inr (v, drop k r)
           | More st' \<Rightarrow> unpack_loop lim st' (drop k r)))"

text \<open>One object, and nothing after it.\<close>

definition unpackb :: "byte list \<Rightarrow> error + pyobj" where
  "unpackb packed =
     (case unpack_loop (length packed) [] packed of
        Inl e \<Rightarrow> Inl e
      | Inr (v, rest) \<Rightarrow> if rest = [] then Inr v else Inl ExtraData)"

subsection \<open>The Metadata dataclass\<close>

text \<open>
  The dataclass declares \<open>job_id: str\<close> and checks nothing at run time, so the field
  holds whatever it is given: a \<open>str\<close> in create, any unpacked object in get and delete.
\<close>

record 'a Metadata =
  job_id :: 'a

definition asdict :: "pystr Metadata \<Rightarrow> (pystr \<times> pystr) list" where
  "asdict m = [(py ''job_id'', job_id m)]"

text \<open>
  \<open>Metadata(**d)\<close>: \<open>d\<close> must be a mapping, each key must be the string \<open>job_id\<close> (any
  other key is a non-string keyword or an unexpected argument), and \<open>job_id\<close> must be
  there; each failure is a TypeError.
\<close>

definition Metadata_kwargs :: "pyobj \<Rightarrow> error + pyobj Metadata" where
  "Metadata_kwargs d =
     (case d of
        PDict kvs \<Rightarrow>
          if list_ex (\<lambda>kv. fst kv \<noteq> PStr (py ''job_id'')) kvs then Inl TypeError
          else (case map_of kvs (PStr (py ''job_id'')) of
                  None \<Rightarrow> Inl TypeError
                | Some v \<Rightarrow> Inr \<lparr>job_id = v\<rparr>)
      | _ \<Rightarrow> Inl TypeError)"

subsection \<open>Types of the input bridge\<close>

text \<open>The Python types \<open>TypeEngine.guess_python_type\<close> can return: the seven keys of the
  table below, and any other type object, identified by its name.\<close>

datatype pytype = PyList | PyBool | PyBytes | PyDatetime | PyFloat | PyInt | PyStr | PyOther string

fun pythonTypeToBigQueryType :: "pytype \<Rightarrow> string option" where
  "pythonTypeToBigQueryType PyList = Some ''ARRAY''"
| "pythonTypeToBigQueryType PyBool = Some ''BOOL''"
| "pythonTypeToBigQueryType PyBytes = Some ''BYTES''"
| "pythonTypeToBigQueryType PyDatetime = Some ''DATETIME''"
| "pythonTypeToBigQueryType PyFloat = Some ''FLOAT64''"
| "pythonTypeToBigQueryType PyInt = Some ''INT64''"
| "pythonTypeToBigQueryType PyStr = Some ''STRING''"
| "pythonTypeToBigQueryType (PyOther _) = None"

text \<open>
  \<open>TypeEngine\<close> belongs to flytekit's core, outside the excerpt; its two functions used
  by create are parameters. \<open>'t\<close> is the type of literal types, \<open>'l\<close> of literals and
  \<open>'n\<close> of native Python values.
\<close>

record ('t, 'l, 'n) type_engine =
  guess_python_type :: "'t \<Rightarrow> error + pytype"
  literal_map_to_kwargs ::
    "(string \<times> 'l) list \<Rightarrow> (string \<times> pytype) list \<Rightarrow> error + (string \<times> 'n) list"

text \<open>The part of a task template that create reads: the literal type of each declared
  input, the \<open>custom\<close> dictionary (or None) and the SQL statement (\<open>sql\<close> may be None).\<close>

record 't TaskTemplate =
  interface_inputs :: "(string \<times> 't) list"
  custom :: "(string \<rightharpoonup> pyobj) option"
  sql_statement :: "string option"

record 'n ScalarQueryParameter =
  param_name :: string
  type_ :: string
  param_value :: 'n

record 'n QueryJobConfig =
  query_parameters :: "'n ScalarQueryParameter list"

subsection \<open>The backend\<close>

record TableReference =
  project :: string
  dataset_id :: string
  table_id :: string

record QueryJob =
  state :: string
  destination :: "TableReference option"

text \<open>
  What the BigQuery service answers to the three requests of the agent. Constructing a
  client sends nothing; it is recorded as an event, as is each request.
\<close>

record 'n backend =
  query :: "string \<Rightarrow> 'n QueryJobConfig option \<Rightarrow> error + pystr"
  get_job :: "pyobj \<Rightarrow> error + QueryJob"
  cancel_job :: "pyobj \<Rightarrow> error option"

datatype 'n event =
    ClientCreated "(pyobj \<times> pyobj) option"
  | QuerySubmitted string "'n QueryJobConfig option"
  | JobRequested pyobj
  | CancelRequested pyobj

subsection \<open>State translation and the output bridge\<close>

datatype State = QUEUED | RUNNING | SUCCEEDED | FAILED

text \<open>
  Modelled from the spec: \<open>convert_to_flyte_state\<close> of
  \<open>flytekit.extend.backend.base_agent\<close> is missing from the excerpt. The specification
  describes the state translator as a pure lookup in a backend-specific table from status
  strings to the four generic states, with RUNNING for every string the table does not
  hold. The table is a parameter.
\<close>

definition convert_to_flyte_state :: "(string \<rightharpoonup> State) \<Rightarrow> string \<Rightarrow> State" where
  "convert_to_flyte_state table s = (case table s of None \<Rightarrow> RUNNING | Some st \<Rightarrow> st)"

datatype StructuredDataset = StructuredDataset (uri: string)

datatype Literal = StructuredDatasetLiteral string string

text \<open>
  Modelled from the spec: \<open>TypeEngine.to_literal\<close> is missing from the excerpt. For a
  structured-data locator and the declared format the specification asks for a generic
  tagged value that wraps the locator and does not read the data.
\<close>

definition to_literal :: "StructuredDataset \<Rightarrow> string \<Rightarrow> Literal" where
  "to_literal sd fmt = StructuredDatasetLiteral (uri sd) fmt"

type_synonym LiteralMap = "(string \<times> Literal) list"

record Resource =
  res_state :: State
  outputs :: LiteralMap

subsection \<open>BigQueryAgent.create\<close>

text \<open>The dictionary comprehension over the declared inputs.\<close>

fun guess_types :: "('t \<Rightarrow> error + pytype) \<Rightarrow> (string \<times> 't) list \<Rightarrow> error + (string \<times> pytype) list" where
  "guess_types g [] = Inr []"
| "guess_types g ((name, lt) # rest) =
     (case g lt of
        Inl e \<Rightarrow> Inl e
      | Inr t \<Rightarrow>
          (case guess_types g rest of
             Inl e \<Rightarrow> Inl e
           | Inr ts \<Rightarrow> Inr ((name, t) # ts)))"

text \<open>The list comprehension over the native inputs; each of the two subscripts raises
  KeyError on a missing key.\<close>

fun scalar_query_parameters ::
  "(string \<times> pytype) list \<Rightarrow> (string \<times> 'n) list \<Rightarrow> error + 'n ScalarQueryParameter list" where
  "scalar_query_parameters python_interface_inputs [] = Inr []"
| "scalar_query_parameters python_interface_inputs ((name, val) # rest) =
     (case map_of python_interface_inputs name of
        None \<Rightarrow> Inl KeyError
      | Some t \<Rightarrow>
          (case pythonTypeToBigQueryType t of
             None \<Rightarrow> Inl KeyError
           | Some ty \<Rightarrow>
               (case scalar_query_parameters python_interface_inputs rest of
                  Inl e \<Rightarrow> Inl e
                | Inr ps \<Rightarrow> Inr (\<lparr>param_name = name, type_ = ty, param_value = val\<rparr> # ps))))"

text \<open>The block under \<open>if inputs:\<close>. A LiteralMap object is true even when it holds no
  literal, so the block runs whenever inputs are given.\<close>

definition make_job_config ::
  "('t, 'l, 'n) type_engine \<Rightarrow> 't TaskTemplate \<Rightarrow> (string \<times> 'l) list option
     \<Rightarrow> error + 'n QueryJobConfig option" where
  "make_job_config TE task_template inputs =
     (case inputs of
        None \<Rightarrow> Inr None
      | Some lm \<Rightarrow>
          (case guess_types (guess_python_type TE) (interface_inputs task_template) of
             Inl e \<Rightarrow> Inl e
           | Inr python_interface_inputs \<Rightarrow>
               (case literal_map_to_kwargs TE lm python_interface_inputs of
                  Inl e \<Rightarrow> Inl e
                | Inr native_inputs \<Rightarrow>
                    (case scalar_query_parameters python_interface_inputs native_inputs of
                       Inl e \<Rightarrow> Inl e
                     | Inr ps \<Rightarrow> Inr (Some \<lparr>query_parameters = ps\<rparr>)))))"

text \<open>The result of each operation comes with the backend events of the call, in order.\<close>

definition create ::
  "('t, 'l, 'n) type_engine \<Rightarrow> 'n backend \<Rightarrow> 't TaskTemplate \<Rightarrow> (string \<times> 'l) list option
     \<Rightarrow> (error + byte list) \<times> 'n event list" where
  "create TE B task_template inputs =
     (case make_job_config TE task_template inputs of
        Inl e \<Rightarrow> (Inl e, [])
      | Inr job_config \<Rightarrow>
          (case custom task_template of
             None \<Rightarrow> (Inl TypeError, [])
           | Some c \<Rightarrow>
               (case c ''ProjectID'' of
                  None \<Rightarrow> (Inl KeyError, [])
                | Some proj \<Rightarrow>
                    (case c ''Location'' of
                       None \<Rightarrow> (Inl KeyError, [])
                     | Some loc \<Rightarrow>
                         (case sql_statement task_template of
                            None \<Rightarrow> (Inl AttributeError, [ClientCreated (Some (proj, loc))])
                          | Some stmt \<Rightarrow>
                              (let evs = [ClientCreated (Some (proj, loc)),
                                          QuerySubmitted stmt job_config]
                               in case query B stmt job_config of
                                    Inl e \<Rightarrow> (Inl e, evs)
                                  | Inr jid \<Rightarrow> (packb (asdict \<lparr>job_id = jid\<rparr>), evs)))))))"

subsection \<open>BigQueryAgent.get\<close>

definition decode_metadata :: "byte list \<Rightarrow> error + pyobj Metadata" where
  "decode_metadata resource_meta =
     (case unpackb resource_meta of
        Inl e \<Rightarrow> Inl e
      | Inr d \<Rightarrow> Metadata_kwargs d)"

definition output_location :: "TableReference \<Rightarrow> string" where
  "output_location d = ''bq://'' @ project d @ '':'' @ dataset_id d @ ''.'' @ table_id d"

text \<open>
  The client is constructed before the token is decoded. \<open>res\<close> stays None unless the
  state is SUCCEEDED, and the last line calls \<open>res.to_flyte_idl()\<close> in every case: on
  None that is an AttributeError. A job without destination table has \<open>destination\<close>
  None, and reading its \<open>project\<close> fails the same way. \<open>res_state\<close> and \<open>outputs\<close> are
  the two fields of the returned Resource.
\<close>

definition get ::
  "'n backend \<Rightarrow> (string \<rightharpoonup> State) \<Rightarrow> byte list \<Rightarrow> (error + Resource) \<times> 'n event list" where
  "get B table resource_meta =
     (case decode_metadata resource_meta of
        Inl e \<Rightarrow> (Inl e, [ClientCreated None])
      | Inr metadata \<Rightarrow>
          (let evs = [ClientCreated None, JobRequested (job_id metadata)]
           in case get_job B (job_id metadata) of
                Inl e \<Rightarrow> (Inl e, evs)
              | Inr job \<Rightarrow>
                  (let cur_state = convert_to_flyte_state table (state job);
                       res = (if cur_state = SUCCEEDED
                              then (case destination job of
                                      None \<Rightarrow> Inl AttributeError
                                    | Some d \<Rightarrow>
                                        Inr (Some [(''results'',
                                          to_literal (StructuredDataset (output_location d)) [])]))
                              else Inr None)
                   in case res of
                        Inl e \<Rightarrow> (Inl e, evs)
                      | Inr None \<Rightarrow> (Inl AttributeError, evs)
                      | Inr (Some lm) \<Rightarrow> (Inr \<lparr>res_state = cur_state, outputs = lm\<rparr>, evs))))"

subsection \<open>BigQueryAgent.delete\<close>

text \<open>
  Where create and get use msgpack, delete reads the token as UTF-8 text and parses that as
  JSON. The JSON parser of the standard library is a parameter: it is reached only when
  the token is valid UTF-8.
\<close>

definition delete ::
  "'n backend \<Rightarrow> (pystr \<Rightarrow> error + pyobj) \<Rightarrow> byte list \<Rightarrow> (error + unit) \<times> 'n event list" where
  "delete B json_loads resource_meta =
     (case utf8_decode resource_meta of
        Inl e \<Rightarrow> (Inl e, [ClientCreated None])
      | Inr text \<Rightarrow>
          (case json_loads text of
             Inl e \<Rightarrow> (Inl e, [ClientCreated None])
           | Inr d \<Rightarrow>
               (case Metadata_kwargs d of
                  Inl e \<Rightarrow> (Inl e, [ClientCreated None])
                | Inr metadata \<Rightarrow>
                    (let evs = [ClientCreated None, CancelRequested (job_id metadata)]
                     in case cancel_job B (job_id metadata) of
                          Some e \<Rightarrow> (Inl e, evs)
                        | None \<Rightarrow> (Inr (), evs)))))"

subsection \<open>Notions of the claims and of their proofs\<close>

text \<open>
  A valid job identifier is a string of Unicode scalar values (no surrogates) whose UTF-8
  form has fewer than \<open>2^32\<close> bytes; \<open>utf8_size\<close> is the number of bytes of one code point.
\<close>

definition is_scalar :: "nat \<Rightarrow> bool" where
  "is_scalar c = (c < 0x110000 \<and> \<not> (0xD800 \<le> c \<and> c < 0xE000))"

definition utf8_size :: "nat \<Rightarrow> nat" where
  "utf8_size c = (if c < 0x80 then 1 else if c < 0x800 then 2 else if c < 0x10000 then 3 else 4)"

definition valid_job_id :: "pystr \<Rightarrow> bool" where
  "valid_job_id s = (list_all is_scalar s \<and> sum_list (map utf8_size s) < 2 ^ 32)"

text \<open>The errors the unpacking loop can end with.\<close>

definition unpack_errors :: "error set" where
  "unpack_errors = {ValueError, FormatError, StackError, UnicodeDecodeError}"

text \<open>
  The invariant of the unpacker behind the shape of its results: a dictionary, finished or
  under construction, never holds a key twice.
\<close>

definition obj_ok :: "pyobj \<Rightarrow> bool" where
  "obj_ok v = (case v of PDict d \<Rightarrow> distinct (map fst d) | _ \<Rightarrow> True)"

definition frame_ok :: "frame \<Rightarrow> bool" where
  "frame_ok f =
     (case f of
        FArray _ _ \<Rightarrow> True
      | FMapKey _ d \<Rightarrow> distinct (map fst d)
      | FMapValue _ d _ \<Rightarrow> distinct (map fst d))"

subsection \<open>A stub environment\<close>

text \<open>
  The stub backend of the specification's scenarios: it accepts every query as job
  \<open>job_1\<close>, reports one fixed status and destination for whatever job it is asked about,
  and accepts every cancellation. The stub type engine knows the literal types by name and
  passes values through; the status table is a sample.
\<close>

definition stub_backend :: "string \<Rightarrow> TableReference option \<Rightarrow> int backend" where
  "stub_backend status dest =
     \<lparr>query = (\<lambda>stmt cfg. Inr (py ''job_1'')),
      get_job = (\<lambda>jid. Inr \<lparr>state = status, destination = dest\<rparr>),
      cancel_job = (\<lambda>jid. None)\<rparr>"

definition stub_engine :: "(string, int, int) type_engine" where
  "stub_engine =
     \<lparr>guess_python_type =
        (\<lambda>t. if t = ''integer'' then Inr PyInt
             else if t = ''string'' then Inr PyStr
             else Inr (PyOther t)),
      literal_map_to_kwargs = (\<lambda>lm ts. Inr lm)\<rparr>"

definition stub_template :: "string \<Rightarrow> string TaskTemplate" where
  "stub_template t =
     \<lparr>interface_inputs = [(''x'', t)],
      custom = Some [''ProjectID'' \<mapsto> PStr (py ''proj''), ''Location'' \<mapsto> PStr (py ''US'')],
      sql_statement = Some ''SELECT @x''\<rparr>"

definition stub_table :: "string \<rightharpoonup> State" where
  "stub_table =
     [''PENDING'' \<mapsto> QUEUED, ''RUNNING'' \<mapsto> RUNNING, ''DONE'' \<mapsto> SUCCEEDED,
      ''FAILED'' \<mapsto> FAILED]"

definition stub_destination :: TableReference where
  "stub_destination = \<lparr>project = ''proj'', dataset_id = ''ds'', table_id = ''tbl''\<rparr>"

text \<open>The token create returns for job \<open>job_1\<close>, and a token whose \<open>job_id\<close> is the
  integer 5.\<close>

definition job_1_token :: "byte list" where
  "job_1_token =
     [0x81, 0xA6, 0x6A, 0x6F, 0x62, 0x5F, 0x69, 0x64, 0xA5, 0x6A, 0x6F, 0x62, 0x5F, 0x31]"

definition int_token :: "byte list" where
  "int_token = [0x81, 0xA6, 0x6A, 0x6F, 0x62, 0x5F, 0x69, 0x64, 0x05]"

text \<open>A command-line environment: the working directory is \<open>/home/u/proj\<close>, which is
  also the project root, and every entity loads.\<close>

definition stub_cli_env :: "unit cli_env" where
  "stub_cli_env =
     \<lparr>getcwd = ''/home/u/proj'',
      find_project_root = (\<lambda>f. Inr ''/home/u/proj''),
      load_naive_entity = (\<lambda>m e r. Inr ())\<rparr>"

definition stub_cli_consts :: cli_consts where
  "stub_cli_consts =
     \<lparr>RUN_LEVEL_PARAMS_KEY = ''run_level_params'', CTX_PROJECT_ROOT = ''project_root'',
      CTX_MODULE = ''module''\<rparr>"

section \<open>Proofs: the build command group\<close>

lemma split_sep_nonempty: "split_sep s p \<noteq> []"
  by (induction p) (auto split: list.splits)

lemma split_sep_no_sep: "w \<in> set (split_sep s p) \<Longrightarrow> s \<notin> set w"
  by (induction p arbitrary: w) (auto split: list.splits if_splits)

lemma path_parts_no_slash: "b \<in> set (path_parts p) \<Longrightarrow> \<not> prefix ''/'' b"
proof
  assume b: "b \<in> set (path_parts p)" and pre: "prefix ''/'' b"
  from b have "CHR ''/'' \<notin> set b"
    by (auto simp: path_parts_def dest: split_sep_no_sep)
  moreover from pre obtain r where "b = CHR ''/'' # r"
    by (auto simp: prefix_def)
  ultimately show False by simp
qed

lemma join_loop_keeps_dotdot:
  "\<forall>b \<in> set p. \<not> prefix ''/'' b \<Longrightarrow> prefix ''..'' path \<Longrightarrow> prefix ''..'' (join_loop path p)"
proof (induction p arbitrary: path)
  case Nil
  then show ?case by simp
next
  case (Cons b p)
  from Cons.prems(2) have ne: "path \<noteq> []" by auto
  have "prefix ''..'' (path @ b)" "prefix ''..'' (path @ ''/'' @ b)"
    using Cons.prems(2) by (auto simp: prefix_def)
  with Cons show ?case by (auto simp: ne)
qed

lemma commonprefix_short:
  "\<not> prefix xs ys \<Longrightarrow> length (commonprefix xs ys) < length xs"
  by (induction xs ys rule: commonprefix.induct) auto

lemma relpath_outside:
  assumes "\<not> prefix (path_parts start) (path_parts path)" and "path \<noteq> []"
  shows "\<exists>r. relpath path start = Inr r \<and> prefix ''..'' r"
proof -
  let ?s = "path_parts start" and ?p = "path_parts path"
  let ?i = "length (commonprefix ?s ?p)"
  from assms(1) have "?i < length ?s" by (rule commonprefix_short)
  then obtain k where k: "length ?s - ?i = Suc k"
    by (cases "length ?s - ?i") auto
  have tl: "\<forall>b \<in> set (replicate k ''..'' @ drop ?i ?p). \<not> prefix ''/'' b"
    by (auto dest: in_set_dropD path_parts_no_slash)
  have "relpath path start = Inr (join_loop ''..'' (replicate k ''..'' @ drop ?i ?p))"
    using assms(2) k by (simp add: relpath_def Let_def)
  moreover have "prefix ''..'' (join_loop ''..'' (replicate k ''..'' @ drop ?i ?p))"
    using tl by (rule join_loop_keeps_dotdot) simp
  ultimately show ?thesis by blast
qed

text \<open>
  Claim C9: when the resolved file does not lie in the working directory or below it,
  \<open>get_command\<close> raises ValueError, loads no entity and leaves the click context as it
  was.
\<close>
theorem get_command_outside_cwd:
  "\<not> under_cwd filename (getcwd env)
   \<Longrightarrow> get_command K env filename ctx exe_entity = (Inl ValueError, ctx, [])"
proof (cases "filename = []")
  case True
  then show ?thesis by (simp add: get_command_def relpath_def)
next
  case False
  assume "\<not> under_cwd filename (getcwd env)"
  then obtain r where "relpath filename (getcwd env) = Inr r" "prefix ''..'' r"
    using relpath_outside [OF _ False] by (auto simp: under_cwd_def)
  then show ?thesis by (simp add: get_command_def)
qed

text \<open>A file in a sibling directory of the working directory.\<close>
theorem get_command_outside_cwd_witness:
  "\<not> under_cwd ''/home/u/other/wf.py'' (getcwd stub_cli_env)
   \<and> get_command stub_cli_consts stub_cli_env ''/home/u/other/wf.py'' \<lparr>obj = None\<rparr> ''wf''
       = (Inl ValueError, \<lparr>obj = None\<rparr>, [])"
proof -
  have h: "\<not> under_cwd ''/home/u/other/wf.py'' (getcwd stub_cli_env)"
    by (simp add: under_cwd_def path_parts_def stub_cli_env_def)
  from h get_command_outside_cwd [OF h] show ?thesis by blast
qed

lemma get_command_inside:
  "get_command stub_cli_consts stub_cli_env ''/home/u/proj/pkg/wf.py''
     \<lparr>obj = Some [''run_level_params'' \<mapsto> Map.empty]\<rparr> ''wf''
   = (Inr \<lparr>cmd_name = ''wf'', cmd_entity = (), cmd_help = ''Build an image for pkg.wf.wf.''\<rparr>,
      \<lparr>obj = Some [''run_level_params'' \<mapsto>
                     [''project_root'' \<mapsto> ''/home/u/proj'', ''module'' \<mapsto> ''pkg.wf'']]\<rparr>,
      [LoadEntity ''pkg.wf'' ''wf'' ''/home/u/proj''])"
  by (simp add: get_command_def relpath_def relative_to_def path_parts_def stub_cli_env_def
      stub_cli_consts_def set_run_param_def splitext_root_def replace_sep_def Let_def)

lemma fnmatch_literal:
  "CHR ''*'' \<notin> set p \<Longrightarrow> CHR ''?'' \<notin> set p \<Longrightarrow> fnmatch p n = (n = p)"
proof (induction p arbitrary: n)
  case Nil
  then show ?case by simp
next
  case (Cons a p)
  then show ?case by (cases n) auto
qed

lemma fnmatch_star:
  "fnmatch (CHR ''*'' # ps) n = (\<exists>k \<le> length n. fnmatch ps (drop k n))"
proof (induction n)
  case Nil
  then show ?case by simp
next
  case (Cons c n)
  have "(\<exists>k \<le> length (c # n). fnmatch ps (drop k (c # n)))
        = (fnmatch ps (c # n) \<or> (\<exists>k \<le> length n. fnmatch ps (drop k n)))"
    (is "?L = ?R")
  proof
    assume ?L
    then obtain k where k: "k \<le> length (c # n)" "fnmatch ps (drop k (c # n))" by blast
    show ?R
    proof (cases k)
      case 0
      with k show ?thesis by simp
    next
      case (Suc j)
      with k show ?thesis by auto
    qed
  next
    assume ?R
    then show ?L
    proof
      assume "fnmatch ps (c # n)"
      then have "0 \<le> length (c # n) \<and> fnmatch ps (drop 0 (c # n))" by simp
      then show ?L by blast
    next
      assume "\<exists>k \<le> length n. fnmatch ps (drop k n)"
      then obtain k where "k \<le> length n" "fnmatch ps (drop k n)" by blast
      then have "Suc k \<le> length (c # n) \<and> fnmatch ps (drop (Suc k) (c # n))" by simp
      then show ?L by blast
    qed
  qed
  with Cons show ?case by simp
qed

lemma fnmatch_star_py: "fnmatch ''*.py'' n = matches_star_py n"
proof -
  have "fnmatch ''*.py'' n = (\<exists>k \<le> length n. drop k n = ''.py'')"
    by (simp add: fnmatch_star fnmatch_literal)
  also have "\<dots> = matches_star_py n"
    unfolding matches_star_py_def
  proof
    assume "\<exists>k \<le> length n. drop k n = ''.py''"
    then obtain k where "drop k n = ''.py''" by blast
    then have "n = take k n @ ''.py''" by (metis append_take_drop_id)
    then show "\<exists>stem. n = stem @ ''.py''" ..
  next
    assume "\<exists>stem. n = stem @ ''.py''"
    then obtain stem where "n = stem @ ''.py''" ..
    then have "length stem \<le> length n \<and> drop (length stem) n = ''.py''" by simp
    then show "\<exists>k \<le> length n. drop k n = ''.py''" by blast
  qed
  finally show ?thesis .
qed

text \<open>
  Claim C10: \<open>list_commands\<close> returns exactly the names of the entries of the working
  directory that consist of something followed by \<open>.py\<close>, without \<open>__init__.py\<close>, in
  scan order. Only the names of the directory's own entries are looked at (of whatever
  kind), so nothing that lies inside a subdirectory is listed.
\<close>
theorem list_commands_exact:
  "list_commands entries
     = filter (\<lambda>n. matches_star_py n \<and> n \<noteq> ''__init__.py'') (map fst entries)"
  by (simp add: list_commands_def glob_def fnmatch_star_py conj_commute)

lemma list_commands_example:
  "list_commands
     [(''a.py'', File), (''__init__.py'', File), (''b.txt'', File),
      (''pkg'', Dir [(''c.py'', File)]), (''.py'', File), (''d.py'', Dir [])]
   = [''a.py'', ''.py'', ''d.py'']"
  by (simp add: list_commands_def glob_def)

section \<open>Proofs: UTF-8\<close>

lemma utf8_decode2:
  "\<lbrakk>0xC0 \<le> b; b < 0xE0; is_cont c1; cp = (b - 0xC0) * 64 + (c1 - 0x80); 0x80 \<le> cp\<rbrakk>
   \<Longrightarrow> utf8_decode_nat (b # c1 # rest) = map_option ((#) cp) (utf8_decode_nat rest)"
  by (simp add: Let_def)

lemma utf8_decode3:
  "\<lbrakk>0xE0 \<le> b; b < 0xF0; is_cont c1; is_cont c2;
    cp = (b - 0xE0) * 4096 + (c1 - 0x80) * 64 + (c2 - 0x80);
    0x800 \<le> cp; \<not> (0xD800 \<le> cp \<and> cp < 0xE000)\<rbrakk>
   \<Longrightarrow> utf8_decode_nat (b # c1 # c2 # rest) = map_option ((#) cp) (utf8_decode_nat rest)"
  by (simp add: Let_def)

lemma utf8_decode4:
  "\<lbrakk>0xF0 \<le> b; b < 0xF8; is_cont c1; is_cont c2; is_cont c3;
    cp = (b - 0xF0) * 262144 + (c1 - 0x80) * 4096 + (c2 - 0x80) * 64 + (c3 - 0x80);
    0x10000 \<le> cp; cp < 0x110000\<rbrakk>
   \<Longrightarrow> utf8_decode_nat (b # c1 # c2 # c3 # rest) = map_option ((#) cp) (utf8_decode_nat rest)"
  by (simp add: Let_def)

lemma split_base64_3: "(c::nat) div 4096 * 4096 + c div 64 mod 64 * 64 + c mod 64 = c"
proof -
  have d: "c div 4096 = c div 64 div 64" by (simp add: div_mult2_eq [symmetric])
  have e: "\<And>a b::nat. a * 4096 + b * 64 = (a * 64 + b) * 64" by simp
  have "c div 4096 * 4096 + c div 64 mod 64 * 64 + c mod 64
          = (c div 64 div 64 * 64 + c div 64 mod 64) * 64 + c mod 64"
    unfolding d e ..
  also have "\<dots> = c div 64 * 64 + c mod 64" by (simp only: div_mult_mod_eq)
  also have "\<dots> = c" by (simp only: div_mult_mod_eq)
  finally show ?thesis .
qed

lemma split_base64_4:
  "(c::nat) div 262144 * 262144 + c div 4096 mod 64 * 4096 + c div 64 mod 64 * 64 + c mod 64 = c"
proof -
  have d: "c div 262144 = c div 4096 div 64" by (simp add: div_mult2_eq [symmetric])
  have e: "\<And>a b::nat. a * 262144 + b * 4096 = (a * 64 + b) * 4096" by simp
  have "c div 262144 * 262144 + c div 4096 mod 64 * 4096 + c div 64 mod 64 * 64 + c mod 64
          = (c div 4096 div 64 * 64 + c div 4096 mod 64) * 4096 + c div 64 mod 64 * 64 + c mod 64"
    unfolding d e ..
  also have "\<dots> = c div 4096 * 4096 + c div 64 mod 64 * 64 + c mod 64"
    by (simp only: div_mult_mod_eq)
  also have "\<dots> = c" by (rule split_base64_3)
  finally show ?thesis .
qed

lemma is_cont_low6: "is_cont (0x80 + x mod 64)"
  by (simp add: is_cont_def)

lemma utf8_cp_roundtrip:
  assumes "is_scalar c"
  shows "\<exists>bs. utf8_encode_cp c = Some bs \<and> (\<forall>b \<in> set bs. b < 256) \<and> length bs = utf8_size c
           \<and> (\<forall>rest. utf8_decode_nat (bs @ rest) = map_option ((#) c) (utf8_decode_nat rest))"
proof -
  consider (a) "c < 0x80" | (b) "0x80 \<le> c" "c < 0x800" | (c) "0x800 \<le> c" "c < 0x10000"
    | (d) "0x10000 \<le> c" "c < 0x110000"
    using assms unfolding is_scalar_def by linarith
  then show ?thesis
  proof cases
    case a
    then show ?thesis by (simp add: utf8_encode_cp_def utf8_size_def)
  next
    case b
    let ?b0 = "0xC0 + c div 64" and ?b1 = "0x80 + c mod 64"
    have enc: "utf8_encode_cp c = Some [?b0, ?b1]" using b by (simp add: utf8_encode_cp_def)
    have r: "0xC0 \<le> ?b0" "?b0 < 0xE0" "?b0 < 256" "?b1 < 256" using b by simp_all
    have v: "c = (?b0 - 0xC0) * 64 + (?b1 - 0x80)" by simp
    have "\<And>rest. utf8_decode_nat (?b0 # ?b1 # rest) = map_option ((#) c) (utf8_decode_nat rest)"
      using utf8_decode2 [OF r(1) r(2) is_cont_low6 v b(1)] by blast
    then show ?thesis using enc r b by (simp add: utf8_size_def)
  next
    case c
    let ?b0 = "0xE0 + c div 4096" and ?b1 = "0x80 + c div 64 mod 64" and ?b2 = "0x80 + c mod 64"
    have enc: "utf8_encode_cp c = Some [?b0, ?b1, ?b2]"
      using c assms by (simp add: utf8_encode_cp_def is_scalar_def)
    have r: "0xE0 \<le> ?b0" "?b0 < 0xF0" "?b0 < 256" "?b1 < 256" "?b2 < 256" using c by simp_all
    have v: "c = (?b0 - 0xE0) * 4096 + (?b1 - 0x80) * 64 + (?b2 - 0x80)"
      using split_base64_3 [of c] by simp
    have s: "\<not> (0xD800 \<le> c \<and> c < 0xE000)" using assms by (simp add: is_scalar_def)
    have "\<And>rest. utf8_decode_nat (?b0 # ?b1 # ?b2 # rest) = map_option ((#) c) (utf8_decode_nat rest)"
      using utf8_decode3 [OF r(1) r(2) is_cont_low6 is_cont_low6 v c(1) s] by blast
    then show ?thesis using enc r c by (simp add: utf8_size_def)
  next
    case d
    let ?b0 = "0xF0 + c div 262144" and ?b1 = "0x80 + c div 4096 mod 64"
      and ?b2 = "0x80 + c div 64 mod 64" and ?b3 = "0x80 + c mod 64"
    have enc: "utf8_encode_cp c = Some [?b0, ?b1, ?b2, ?b3]"
      using d by (simp add: utf8_encode_cp_def)
    have r: "0xF0 \<le> ?b0" "?b0 < 0xF8" "?b0 < 256" "?b1 < 256" "?b2 < 256" "?b3 < 256"
      using d by simp_all
    have v: "c = (?b0 - 0xF0) * 262144 + (?b1 - 0x80) * 4096 + (?b2 - 0x80) * 64 + (?b3 - 0x80)"
      using split_base64_4 [of c] by simp
    have "\<And>rest. utf8_decode_nat (?b0 # ?b1 # ?b2 # ?b3 # rest)
            = map_option ((#) c) (utf8_decode_nat rest)"
      using utf8_decode4 [OF r(1) r(2) is_cont_low6 is_cont_low6 is_cont_low6 v d] by blast
    then show ?thesis using enc r d by (simp add: utf8_size_def)
  qed
qed

lemma utf8_roundtrip:
  "list_all is_scalar s \<Longrightarrow>
   \<exists>ns. utf8_encode_nat s = Some ns \<and> (\<forall>b \<in> set ns. b < 256)
        \<and> length ns = sum_list (map utf8_size s) \<and> utf8_decode_nat ns = Some s"
proof (induction s)
  case Nil
  then show ?case by simp
next
  case (Cons c s)
  then obtain ns where ns: "utf8_encode_nat s = Some ns" "\<forall>b \<in> set ns. b < 256"
      "length ns = sum_list (map utf8_size s)" "utf8_decode_nat ns = Some s"
    by auto
  from Cons.prems have "is_scalar c" by simp
  from utf8_cp_roundtrip [OF this] obtain bs where bs: "utf8_encode_cp c = Some bs"
      "\<forall>b \<in> set bs. b < 256" "length bs = utf8_size c"
      "\<forall>rest. utf8_decode_nat (bs @ rest) = map_option ((#) c) (utf8_decode_nat rest)"
    by blast
  have "utf8_encode_nat (c # s) = Some (bs @ ns)" using ns(1) bs(1) by simp
  moreover have "\<forall>b \<in> set (bs @ ns). b < 256" using ns(2) bs(2) by auto
  moreover have "length (bs @ ns) = sum_list (map utf8_size (c # s))" using ns(3) bs(3) by simp
  moreover have "utf8_decode_nat (bs @ ns) = Some (c # s)" using ns(4) bs(4) by simp
  ultimately show ?case by blast
qed

section \<open>Proofs: packing and unpacking a string\<close>

lemma unat_of_nat_byte: "n < 256 \<Longrightarrow> unat (of_nat n :: byte) = n"
  by (simp add: unat_of_nat)

lemma map_unat_of_nat: "\<forall>b \<in> set ns. b < 256 \<Longrightarrow> map unat (map of_nat ns :: byte list) = ns"
  by (induction ns) (simp_all add: unat_of_nat_byte)

lemma length_be_bytes: "length (be_bytes k n) = k"
  by (induction k arbitrary: n) simp_all

lemma be_nat_snoc: "be_nat (xs @ [b]) = be_nat xs * 256 + unat b"
  by (simp add: be_nat_def)

lemma be_nat_be_bytes: "n < 256 ^ k \<Longrightarrow> be_nat (be_bytes k n) = n"
proof (induction k arbitrary: n)
  case 0
  then show ?case by (simp add: be_nat_def)
next
  case (Suc k)
  from Suc.prems have "n div 256 < 256 ^ k"
    by (simp add: less_mult_imp_div_less mult.commute)
  then have "be_nat (be_bytes k (n div 256)) = n div 256" by (rule Suc.IH)
  then show ?case by (simp add: be_nat_snoc unat_of_nat_byte)
qed

lemma read_raw_packed:
  assumes "n < 256 ^ k" and "length body = n" and "n \<le> lim" and "mk body = Inr v"
  shows "read_raw lim k mk (be_bytes k n @ body @ rest) = Inr (Obj v, k + n)"
  using assms by (simp add: read_raw_def length_be_bytes be_nat_be_bytes Let_def)

lemma read_fixed_packed:
  assumes "length body = n" and "mk body = Inr v"
  shows "read_fixed n mk (body @ rest) = Inr (Obj v, n)"
  using assms by (simp add: read_fixed_def)

lemma mk_str_encoded:
  assumes "\<forall>b \<in> set ns. b < 256" and "utf8_decode_nat ns = Some s"
  shows "mk_str (map of_nat ns) = Inr (PStr s)"
  using assms by (simp add: mk_str_def utf8_decode_def map_unat_of_nat del: map_map)

lemma read_head_pack_str:
  assumes enc: "utf8_encode_nat s = Some ns" and bytes: "\<forall>b \<in> set ns. b < 256"
    and dec: "utf8_decode_nat ns = Some s" and small: "length ns < 2 ^ 32"
  shows "\<exists>b r. pack_str s = Inr (b # r)
           \<and> (\<forall>lim rest. length ns \<le> lim
                  \<longrightarrow> read_head lim b (r @ rest) = Inr (Obj (PStr s), length r))"
proof -
  let ?l = "length ns" and ?body = "map of_nat ns :: byte list"
  have mk: "mk_str ?body = Inr (PStr s)" using bytes dec by (rule mk_str_encoded)
  have len: "length ?body = ?l" by simp
  consider (a) "?l < 32" | (b) "32 \<le> ?l" "?l < 256" | (c) "256 \<le> ?l" "?l < 65536"
    | (d) "65536 \<le> ?l" "?l < 2 ^ 32"
    using small by linarith
  then show ?thesis
  proof cases
    case a
    have p: "pack_str s = Inr (of_nat (0xA0 + ?l) # ?body)"
      using enc a by (simp add: pack_str_def Let_def)
    have u: "unat (of_nat (0xA0 + ?l) :: byte) = 0xA0 + ?l"
      using a by (intro unat_of_nat_byte) simp
    have "\<And>lim rest. read_head lim (of_nat (0xA0 + ?l)) (?body @ rest) = Inr (Obj (PStr s), ?l)"
      unfolding read_head_def u using a read_fixed_packed [where mk = mk_str, OF len mk] by (simp add: Let_def)
    then show ?thesis using p by simp
  next
    case b
    have p: "pack_str s = Inr (0xD9 # be_bytes 1 ?l @ ?body)"
      using enc b by (simp add: pack_str_def Let_def)
    have "?l < 256 ^ 1" using b by simp
    from read_raw_packed [where mk = mk_str, OF this len _ mk]
    have "\<And>lim rest. ?l \<le> lim
            \<Longrightarrow> read_head lim 0xD9 ((be_bytes 1 ?l @ ?body) @ rest) = Inr (Obj (PStr s), 1 + ?l)"
      by (simp add: read_head_def)
    then show ?thesis using p by (simp add: length_be_bytes)
  next
    case c
    have p: "pack_str s = Inr (0xDA # be_bytes 2 ?l @ ?body)"
      using enc c by (simp add: pack_str_def Let_def)
    have "?l < 256 ^ 2" using c by simp
    from read_raw_packed [where mk = mk_str, OF this len _ mk]
    have "\<And>lim rest. ?l \<le> lim
            \<Longrightarrow> read_head lim 0xDA ((be_bytes 2 ?l @ ?body) @ rest) = Inr (Obj (PStr s), 2 + ?l)"
      by (simp add: read_head_def)
    then show ?thesis using p by (simp add: length_be_bytes)
  next
    case d
    have p: "pack_str s = Inr (0xDB # be_bytes 4 ?l @ ?body)"
      using enc d by (simp add: pack_str_def Let_def)
    have "?l < 256 ^ 4" using d by simp
    from read_raw_packed [where mk = mk_str, OF this len _ mk]
    have "\<And>lim rest. ?l \<le> lim
            \<Longrightarrow> read_head lim 0xDB ((be_bytes 4 ?l @ ?body) @ rest) = Inr (Obj (PStr s), 4 + ?l)"
      by (simp add: read_head_def)
    then show ?thesis using p by (simp add: length_be_bytes)
  qed
qed

section \<open>Proofs: the token of a Metadata record\<close>

lemma pack_str_job_id_key:
  "pack_str (py ''job_id'') = Inr [0xA6, 0x6A, 0x6F, 0x62, 0x5F, 0x69, 0x64]"
  by (simp add: pack_str_def py_def utf8_encode_cp_def)

lemma read_head_job_id_key:
  "read_head lim 0xA6 ([0x6A, 0x6F, 0x62, 0x5F, 0x69, 0x64] @ rest)
     = Inr (Obj (PStr (py ''job_id'')), 6)"
  by (simp add: read_head_def read_fixed_def mk_str_def utf8_decode_def py_def)

lemma packb_metadata:
  "pack_str s = Inr v \<Longrightarrow>
   packb (asdict \<lparr>job_id = s\<rparr>) = Inr (0x81 # [0xA6, 0x6A, 0x6F, 0x62, 0x5F, 0x69, 0x64] @ v)"
  by (simp add: packb_def asdict_def pack_map_header_def pack_str_job_id_key)

lemma unpackb_metadata_token:
  assumes "valid_job_id s"
  shows "\<exists>bs. packb (asdict \<lparr>job_id = s\<rparr>) = Inr bs
           \<and> unpackb bs = Inr (PDict [(PStr (py ''job_id''), PStr s)])"
proof -
  from assms have sc: "list_all is_scalar s" and sz: "sum_list (map utf8_size s) < 2 ^ 32"
    by (simp_all add: valid_job_id_def)
  from utf8_roundtrip [OF sc] obtain ns where ns: "utf8_encode_nat s = Some ns"
      "\<forall>b \<in> set ns. b < 256" "length ns = sum_list (map utf8_size s)" "utf8_decode_nat ns = Some s"
    by blast
  from sz ns(3) have small: "length ns < 2 ^ 32" by simp
  from read_head_pack_str [OF ns(1) ns(2) ns(4) small] obtain b r
    where p: "pack_str s = Inr (b # r)"
      and rd: "\<And>lim rest. length ns \<le> lim \<Longrightarrow> read_head lim b (r @ rest) = Inr (Obj (PStr s), length r)"
    by blast
  have lr: "length ns \<le> Suc (length r)"
    using p ns(1) by (auto simp: pack_str_def Let_def split: if_splits)
  let ?bs = "0x81 # [0xA6, 0x6A, 0x6F, 0x62, 0x5F, 0x69, 0x64] @ b # r"
  let ?lim = "length ?bs"
  have tok: "packb (asdict \<lparr>job_id = s\<rparr>) = Inr ?bs" using p by (rule packb_metadata)
  have "length ns \<le> ?lim" using lr by simp
  from rd [OF this, of "[]"] have rd': "read_head ?lim b r = Inr (Obj (PStr s), length r)" by simp
  have s3: "unpack_loop ?lim [FMapValue 1 [] (PStr (py ''job_id''))] (b # r)
              = Inr (PDict [(PStr (py ''job_id''), PStr s)], [])"
    using rd' by (simp add: step_head_def key_allowed_def)
  have s2: "unpack_loop ?lim [FMapKey 1 []] ([0xA6, 0x6A, 0x6F, 0x62, 0x5F, 0x69, 0x64] @ b # r)
              = Inr (PDict [(PStr (py ''job_id''), PStr s)], [])"
    using s3 read_head_job_id_key [of ?lim "b # r"] by (simp add: step_head_def)
  have h1: "read_head ?lim 0x81 ([0xA6, 0x6A, 0x6F, 0x62, 0x5F, 0x69, 0x64] @ b # r) = Inr (MapHdr 1, 0)"
    by (simp add: read_head_def)
  have s1: "unpack_loop ?lim [] ?bs = Inr (PDict [(PStr (py ''job_id''), PStr s)], [])"
    using s2 h1 by (simp add: step_head_def)
  have "unpackb ?bs = Inr (PDict [(PStr (py ''job_id''), PStr s)])"
    unfolding unpackb_def using s1 by simp
  with tok show ?thesis by blast
qed

lemma utf8_encode_cp_scalar:
  "utf8_encode_cp c = Some bs \<Longrightarrow> is_scalar c \<and> length bs = utf8_size c"
  by (auto simp: utf8_encode_cp_def is_scalar_def utf8_size_def split: if_splits)

lemma utf8_encode_nat_scalar:
  "utf8_encode_nat s = Some ns \<Longrightarrow> list_all is_scalar s \<and> length ns = sum_list (map utf8_size s)"
proof (induction s arbitrary: ns)
  case Nil
  then show ?case by simp
next
  case (Cons c s)
  from Cons.prems obtain bs ms where bs: "utf8_encode_cp c = Some bs"
    and ms: "utf8_encode_nat s = Some ms" and ns: "ns = bs @ ms"
    by (auto split: option.splits)
  from Cons.IH [OF ms] utf8_encode_cp_scalar [OF bs] ns show ?case by simp
qed

lemma pack_str_valid: "pack_str s = Inr v \<Longrightarrow> valid_job_id s"
proof -
  assume p: "pack_str s = Inr v"
  then obtain ns where ns: "utf8_encode_nat s = Some ns"
    by (auto simp: pack_str_def split: option.splits)
  with p have "length ns < 2 ^ 32"
    by (auto simp: pack_str_def Let_def split: if_splits)
  with utf8_encode_nat_scalar [OF ns] show ?thesis by (simp add: valid_job_id_def)
qed

lemma packb_asdict_valid: "packb (asdict m) = Inr token \<Longrightarrow> valid_job_id (job_id m)"
proof -
  assume "packb (asdict m) = Inr token"
  then obtain v where "pack_str (job_id m) = Inr v"
    by (auto simp: packb_def asdict_def split: sum.splits)
  then show ?thesis by (rule pack_str_valid)
qed

lemma create_token_decodes:
  assumes "create TE B task_template inputs = (Inr token, evs)"
  shows "\<exists>jid cfg. query B (the (sql_statement task_template)) cfg = Inr jid
           \<and> decode_metadata token = Inr \<lparr>job_id = PStr jid\<rparr>"
proof -
  from assms obtain stmt cfg jid where s: "sql_statement task_template = Some stmt"
    and q: "query B stmt cfg = Inr jid" and p: "packb (asdict \<lparr>job_id = jid\<rparr>) = Inr token"
    by (auto simp: create_def Let_def split: sum.splits option.splits)
  from packb_asdict_valid [OF p] have "valid_job_id jid" by simp
  from unpackb_metadata_token [OF this] p
  have "decode_metadata token = Inr \<lparr>job_id = PStr jid\<rparr>"
    by (auto simp: decode_metadata_def Metadata_kwargs_def)
  with s q show ?thesis by auto
qed

section \<open>Proofs: the shape of what the unpacker returns\<close>

lemma mk_str_error: "mk_str d = Inl e \<Longrightarrow> e = UnicodeDecodeError"
  by (auto simp: mk_str_def utf8_decode_def split: option.splits sum.splits)

lemma mk_ext_error: "mk_ext c d = Inl e \<Longrightarrow> e = ValueError"
  by (auto simp: mk_ext_def mk_timestamp_def Let_def split: if_splits)

lemma read_fixed_error:
  "read_fixed n mk r = Inl e \<Longrightarrow> e = ValueError \<or> (\<exists>d. mk d = Inl e)"
  by (auto simp: read_fixed_def split: if_splits sum.splits)

lemma read_raw_error:
  "read_raw lim k mk r = Inl e \<Longrightarrow> e = ValueError \<or> (\<exists>d. mk d = Inl e)"
  by (auto simp: read_raw_def Let_def split: if_splits sum.splits)

lemma read_ext_body_error: "read_ext_body k n r = Inl e \<Longrightarrow> e = ValueError"
  by (auto simp: read_ext_body_def split: if_splits sum.splits dest: mk_ext_error)

lemma read_ext_error: "read_ext lim k r = Inl e \<Longrightarrow> e = ValueError"
  by (auto simp: read_ext_def Let_def split: if_splits dest: read_ext_body_error)

lemma read_len_error: "read_len k mk r = Inl e \<Longrightarrow> e = ValueError"
  by (auto simp: read_len_def split: if_splits)

lemma read_head_error:
  "read_head lim b r = Inl e \<Longrightarrow> e \<in> {ValueError, FormatError, UnicodeDecodeError}"
  unfolding read_head_def Let_def
  by (auto split: if_splits
      dest!: read_fixed_error read_raw_error read_ext_error read_ext_body_error read_len_error
      dest: mk_str_error simp: mk_bin_def)

lemma push_error: "push v st = Failed e \<Longrightarrow> e = ValueError"
  by (induction v st rule: push.induct) (auto simp: Let_def split: if_splits)

lemma step_head_error: "step_head lim h st = Failed e \<Longrightarrow> e \<in> {ValueError, StackError}"
  by (auto simp: step_head_def split: head.splits if_splits dest: push_error)

lemma unpack_loop_error: "unpack_loop lim st bs = Inl e \<Longrightarrow> e \<in> unpack_errors"
proof (induction lim st bs rule: unpack_loop.induct)
  case (1 lim st)
  then show ?case by (simp add: unpack_errors_def)
next
  case (2 lim st b r)
  show ?case
  proof (cases "read_head lim b r")
    case (Inl e')
    with "2.prems" have "e = e'" by simp
    with Inl read_head_error show ?thesis by (fastforce simp: unpack_errors_def)
  next
    case (Inr hk)
    obtain h k where hk: "hk = (h, k)" by (cases hk)
    show ?thesis
    proof (cases "step_head lim h st")
      case (Done v)
      with Inr hk "2.prems" show ?thesis by simp
    next
      case (More st')
      with Inr hk "2.prems" have "unpack_loop lim st' (drop k r) = Inl e" by simp
      with "2.IH" [OF Inr hk [symmetric] More] show ?thesis by simp
    next
      case (Failed e')
      with Inr hk "2.prems" have "e = e'" by simp
      with Failed step_head_error show ?thesis by (fastforce simp: unpack_errors_def)
    qed
  qed
qed

lemma unpackb_error: "unpackb bs = Inl e \<Longrightarrow> e \<in> insert ExtraData unpack_errors"
  by (auto simp: unpackb_def split: sum.splits prod.splits if_splits dest: unpack_loop_error)

lemma obj_ok_simps [simp]:
  "obj_ok (PDict d) = distinct (map fst d)"
  "obj_ok PNone" "obj_ok (PBool b)" "obj_ok (PInt i)" "obj_ok (PFloat32 f)" "obj_ok (PFloat64 g)"
  "obj_ok (PStr s)" "obj_ok (PBytes bs)" "obj_ok (PList xs)" "obj_ok (PExtType c bs)"
  "obj_ok (PTimestamp i n)"
  by (simp_all add: obj_ok_def)

lemma frame_ok_simps [simp]:
  "frame_ok (FArray n acc)"
  "frame_ok (FMapKey n d) = distinct (map fst d)"
  "frame_ok (FMapValue n d k) = distinct (map fst d)"
  by (simp_all add: frame_ok_def)

lemma dict_setitem_keys: "set (map fst (dict_setitem d k v)) = insert k (set (map fst d))"
proof (induction d)
  case Nil
  then show ?case by simp
next
  case (Cons kv d)
  obtain k' v' where kv: "kv = (k', v')" by (cases kv)
  show ?case
  proof (cases "k' = k")
    case True
    with kv show ?thesis by simp
  next
    case False
    with kv Cons.IH show ?thesis by (simp add: insert_commute)
  qed
qed

lemma dict_setitem_distinct:
  "distinct (map fst d) \<Longrightarrow> distinct (map fst (dict_setitem d k v))"
proof (induction d)
  case Nil
  then show ?case by simp
next
  case (Cons kv d)
  obtain k' v' where kv: "kv = (k', v')" by (cases kv)
  show ?case
  proof (cases "k' = k")
    case True
    with Cons.prems kv show ?thesis by simp
  next
    case False
    from Cons have "distinct (map fst (dict_setitem d k v))" by simp
    moreover from Cons.prems kv False have "k' \<notin> set (map fst (dict_setitem d k v))"
      unfolding dict_setitem_keys by simp
    ultimately show ?thesis using kv False by simp
  qed
qed

lemma push_ok:
  "list_all frame_ok st \<Longrightarrow> obj_ok v \<Longrightarrow>
   (case push v st of Done w \<Rightarrow> obj_ok w | More st' \<Rightarrow> list_all frame_ok st' | Failed e \<Rightarrow> True)"
proof (induction v st rule: push.induct)
  case (1 v)
  then show ?case by simp
next
  case (2 v n acc st)
  then show ?case by simp
next
  case (3 v n d st)
  then show ?case by simp
next
  case (4 v n d k st)
  from "4.prems" have "distinct (map fst (dict_setitem d k v))"
    by (simp add: dict_setitem_distinct)
  with 4 show ?case by (simp add: Let_def)
qed

lemma mk_str_ok: "mk_str d = Inr v \<Longrightarrow> obj_ok v"
  by (auto simp: mk_str_def split: sum.splits)

lemma mk_ext_ok: "mk_ext c d = Inr v \<Longrightarrow> obj_ok v"
  by (auto simp: mk_ext_def mk_timestamp_def Let_def split: if_splits)

lemma read_fixed_ok:
  "read_fixed n mk r = Inr (Obj v, k) \<Longrightarrow> \<exists>d. mk d = Inr v"
  by (auto simp: read_fixed_def split: if_splits sum.splits)

lemma read_raw_ok:
  "read_raw lim j mk r = Inr (Obj v, k) \<Longrightarrow> \<exists>d. mk d = Inr v"
  by (auto simp: read_raw_def Let_def split: if_splits sum.splits)

lemma read_ext_body_ok: "read_ext_body j n r = Inr (Obj v, k) \<Longrightarrow> obj_ok v"
  by (auto simp: read_ext_body_def split: if_splits sum.splits dest: mk_ext_ok)

lemma read_ext_ok: "read_ext lim j r = Inr (Obj v, k) \<Longrightarrow> obj_ok v"
  by (auto simp: read_ext_def Let_def split: if_splits dest: read_ext_body_ok)

lemma read_len_hdr:
  "read_len j ArrayHdr r \<noteq> Inr (Obj v, k)" "read_len j MapHdr r \<noteq> Inr (Obj v, k)"
  by (auto simp: read_len_def)

lemma read_head_ok: "read_head lim b r = Inr (Obj v, k) \<Longrightarrow> obj_ok v"
  unfolding read_head_def Let_def
  by (auto split: if_splits
      dest!: read_fixed_ok read_raw_ok
      dest: mk_str_ok read_ext_ok read_ext_body_ok
      simp: mk_bin_def read_len_hdr)

lemma step_head_ok:
  assumes "list_all frame_ok st" and "read_head lim b r = Inr (h, k)"
  shows "case step_head lim h st of
           Done w \<Rightarrow> obj_ok w | More st' \<Rightarrow> list_all frame_ok st' | Failed e \<Rightarrow> True"
proof (cases h)
  case (Obj v)
  with assms(2) have "obj_ok v" using read_head_ok by blast
  with push_ok [OF assms(1)] Obj show ?thesis by (simp add: step_head_def)
next
  case (ArrayHdr n)
  have "obj_ok (PList [])" by simp
  with push_ok [OF assms(1)] ArrayHdr assms(1) show ?thesis
    by (simp add: step_head_def)
next
  case (MapHdr n)
  have "obj_ok (PDict [])" by simp
  with push_ok [OF assms(1)] MapHdr assms(1) show ?thesis
    by (simp add: step_head_def)
qed

lemma unpack_loop_ok:
  "list_all frame_ok st \<Longrightarrow> unpack_loop lim st bs = Inr (v, rest) \<Longrightarrow> obj_ok v"
proof (induction lim st bs rule: unpack_loop.induct)
  case (1 lim st)
  then show ?case by simp
next
  case (2 lim st b r)
  from "2.prems"(2) obtain h k where hk: "read_head lim b r = Inr (h, k)"
    by (cases "read_head lim b r") auto
  from step_head_ok [OF "2.prems"(1) hk]
  have ok: "case step_head lim h st of
              Done w \<Rightarrow> obj_ok w | More st' \<Rightarrow> list_all frame_ok st' | Failed e \<Rightarrow> True" .
  show ?case
  proof (cases "step_head lim h st")
    case (Done w)
    with hk "2.prems"(2) ok show ?thesis by simp
  next
    case (More st')
    with hk "2.prems"(2) have "unpack_loop lim st' (drop k r) = Inr (v, rest)" by simp
    moreover from ok More have "list_all frame_ok st'" by simp
    ultimately show ?thesis using "2.IH" [OF hk refl More] by simp
  next
    case (Failed e)
    with hk "2.prems"(2) show ?thesis by simp
  qed
qed

lemma unpackb_dict_distinct: "unpackb bs = Inr (PDict d) \<Longrightarrow> distinct (map fst d)"
proof -
  assume "unpackb bs = Inr (PDict d)"
  then obtain rest where "unpack_loop (length bs) [] bs = Inr (PDict d, rest)"
    by (auto simp: unpackb_def split: sum.splits prod.splits if_splits)
  from unpack_loop_ok [OF _ this] show ?thesis by simp
qed

lemma single_key_dict:
  assumes "distinct (map fst d)" and "\<forall>kv \<in> set d. fst kv = k" and "d \<noteq> []"
  shows "\<exists>v. d = [(k, v)]"
proof (cases d)
  case Nil
  with assms(3) show ?thesis by simp
next
  case (Cons kv d')
  have "d' = []"
  proof (cases d')
    case Nil
    then show ?thesis .
  next
    case (Cons kv' d'')
    with \<open>d = kv # d'\<close> assms(2) have "fst kv = k" "fst kv' = k" by simp_all
    with \<open>d = kv # d'\<close> Cons assms(1) show ?thesis by simp
  qed
  with Cons assms(2) show ?thesis by (cases kv) auto
qed

lemma Metadata_kwargs_ok:
  assumes "Metadata_kwargs v = Inr m" and "obj_ok v"
  shows "v = PDict [(PStr (py ''job_id''), job_id m)]"
proof -
  from assms(1) obtain d where d: "v = PDict d"
    by (cases v) (auto simp: Metadata_kwargs_def)
  from assms(1) d have keys: "\<forall>kv \<in> set d. fst kv = PStr (py ''job_id'')"
    and look: "map_of d (PStr (py ''job_id'')) = Some (job_id m)"
    by (auto simp: Metadata_kwargs_def list_ex_iff split: if_splits option.splits)
  from look have ne: "d \<noteq> []" by auto
  from assms(2) d have dist: "distinct (map fst d)" by simp
  from single_key_dict [OF dist keys ne] obtain x where x: "d = [(PStr (py ''job_id''), x)]" ..
  from look have "x = job_id m" unfolding x by simp
  with x d show ?thesis by simp
qed

lemma Metadata_kwargs_error: "Metadata_kwargs v = Inl e \<Longrightarrow> e = TypeError"
  by (cases v) (auto simp: Metadata_kwargs_def split: if_splits option.splits)

lemma decode_metadata_cases:
  "(\<exists>v. unpackb token = Inr (PDict [(PStr (py ''job_id''), v)])
        \<and> decode_metadata token = Inr \<lparr>job_id = v\<rparr>)
   \<or> (\<exists>e \<in> {ValueError, FormatError, StackError, UnicodeDecodeError, ExtraData, TypeError}.
         decode_metadata token = Inl e)"
proof (cases "unpackb token")
  case (Inl e)
  from unpackb_error [OF this] Inl show ?thesis
    by (auto simp: decode_metadata_def unpack_errors_def)
next
  case (Inr v)
  show ?thesis
  proof (cases "Metadata_kwargs v")
    case (Inl e)
    with Metadata_kwargs_error Inr show ?thesis by (auto simp: decode_metadata_def)
  next
    case (Inr m)
    have "obj_ok v"
    proof (cases v)
      case (PDict d)
      with \<open>unpackb token = Inr v\<close> unpackb_dict_distinct show ?thesis
        by simp
    qed simp_all
    from Metadata_kwargs_ok [OF Inr this] Inr \<open>unpackb token = Inr v\<close>
    show ?thesis by (auto simp: decode_metadata_def)
  qed
qed

section \<open>Proofs: the agent\<close>

lemma utf8_decode_fixmap: "utf8_decode (0x81 # r) = Inl UnicodeDecodeError"
  by (simp add: utf8_decode_def)

lemma packb_asdict_head: "packb (asdict m) = Inr bs \<Longrightarrow> \<exists>r. bs = 0x81 # r"
  by (auto simp: packb_def asdict_def pack_map_header_def split: sum.splits)

lemma create_token_packed:
  "create TE B task_template inputs = (Inr token, evs)
   \<Longrightarrow> \<exists>jid. packb (asdict \<lparr>job_id = jid\<rparr>) = Inr token"
  by (auto simp: create_def Let_def split: sum.splits option.splits)

text \<open>
  Claim C1: what the code does with a token that create returned. The token is msgpack and
  starts with the byte \<open>0x81\<close>, which is no valid start of UTF-8 text; delete decodes
  it as UTF-8 for its JSON parser, so it raises UnicodeDecodeError after constructing its
  client and requests no cancellation, whatever the backend and the JSON parser are.
\<close>
theorem delete_rejects_create_token:
  "create TE B task_template inputs = (Inr token, evs)
   \<Longrightarrow> delete B' json_loads token = (Inl UnicodeDecodeError, [ClientCreated None])"
proof -
  assume "create TE B task_template inputs = (Inr token, evs)"
  then obtain jid where "packb (asdict \<lparr>job_id = jid\<rparr>) = Inr token"
    using create_token_packed by blast
  then obtain r where "token = 0x81 # r" using packb_asdict_head by blast
  then show ?thesis by (simp add: delete_def utf8_decode_fixmap)
qed

lemma create_stub:
  "create stub_engine (stub_backend st d) (stub_template ''integer'') (Some [(''x'', 5)])
     = (Inr job_1_token,
        [ClientCreated (Some (PStr (py ''proj''), PStr (py ''US''))),
         QuerySubmitted ''SELECT @x''
           (Some \<lparr>query_parameters = [\<lparr>param_name = ''x'', type_ = ''INT64'', param_value = 5\<rparr>]\<rparr>)])"
  by (simp add: create_def make_job_config_def stub_engine_def stub_backend_def stub_template_def
      job_1_token_def packb_def asdict_def pack_map_header_def pack_str_def py_def
      utf8_encode_cp_def)

text \<open>The stub backend: create returns the token of \<open>job_1\<close>, and delete rejects it.\<close>
theorem delete_rejects_create_token_witness:
  "create stub_engine (stub_backend ''RUNNING'' None) (stub_template ''integer'') (Some [(''x'', 5)])
     = (Inr job_1_token,
        [ClientCreated (Some (PStr (py ''proj''), PStr (py ''US''))),
         QuerySubmitted ''SELECT @x''
           (Some \<lparr>query_parameters = [\<lparr>param_name = ''x'', type_ = ''INT64'', param_value = 5\<rparr>]\<rparr>)])
   \<and> delete (stub_backend ''RUNNING'' None) (\<lambda>s. Inl JSONDecodeError) job_1_token
     = (Inl UnicodeDecodeError, [ClientCreated None])"
  using delete_rejects_create_token [OF create_stub [of "''RUNNING''" None],
      of "stub_backend ''RUNNING'' None" "\<lambda>s. Inl JSONDecodeError"] create_stub [of "''RUNNING''" None]
  by simp

lemma decode_job_1_token: "decode_metadata job_1_token = Inr \<lparr>job_id = PStr (py ''job_1'')\<rparr>"
  by (simp add: decode_metadata_def unpackb_def job_1_token_def read_head_def read_fixed_def
      step_head_def key_allowed_def mk_str_def utf8_decode_def Metadata_kwargs_def py_def)

lemma decode_int_token: "decode_metadata int_token = Inr \<lparr>job_id = PInt 5\<rparr>"
  by (simp add: decode_metadata_def unpackb_def int_token_def read_head_def read_fixed_def
      step_head_def key_allowed_def mk_str_def utf8_decode_def Metadata_kwargs_def py_def)

lemma stub_get_job:
  "get_job (stub_backend status dest) jid = Inr \<lparr>state = status, destination = dest\<rparr>"
  by (simp add: stub_backend_def)

lemma get_requests_decoded_job:
  "decode_metadata token = Inr m
   \<Longrightarrow> snd (get B table token) = [ClientCreated None, JobRequested (job_id m)]"
  by (auto simp: get_def Let_def split: sum.splits option.splits)

text \<open>
  Claim C3: a Metadata record with a valid job identifier has an encoded form, and decoding
  that form gives back a record with the same job identifier. Given that token, get asks
  the backend for exactly that job, whatever the backend and the status table are; and
  create returns that token whenever its job configuration can be built, \<open>custom\<close> holds
  the project and the location, the SQL statement is there and the backend answers the
  query with that job identifier.
\<close>
theorem metadata_roundtrip:
  assumes "valid_job_id (job_id m)"
  shows "\<exists>token. packb (asdict m) = Inr token
           \<and> decode_metadata token = Inr \<lparr>job_id = PStr (job_id m)\<rparr>
           \<and> snd (get B' table token) = [ClientCreated None, JobRequested (PStr (job_id m))]
           \<and> (make_job_config TE task_template inputs = Inr cfg
                \<and> custom task_template = Some c \<and> c ''ProjectID'' = Some proj
                \<and> c ''Location'' = Some loc \<and> sql_statement task_template = Some stmt
                \<and> query B stmt cfg = Inr (job_id m)
              \<longrightarrow> create TE B task_template inputs
                    = (Inr token, [ClientCreated (Some (proj, loc)), QuerySubmitted stmt cfg]))"
proof -
  from unpackb_metadata_token [OF assms] obtain bs
    where p: "packb (asdict \<lparr>job_id = job_id m\<rparr>) = Inr bs"
      and u: "unpackb bs = Inr (PDict [(PStr (py ''job_id''), PStr (job_id m))])"
    by blast
  from p have pm: "packb (asdict m) = Inr bs" by (simp add: asdict_def)
  from u have d: "decode_metadata bs = Inr \<lparr>job_id = PStr (job_id m)\<rparr>"
    by (simp add: decode_metadata_def Metadata_kwargs_def)
  from get_requests_decoded_job [OF d]
  have g: "snd (get B' table bs) = [ClientCreated None, JobRequested (PStr (job_id m))]" by simp
  have c: "make_job_config TE task_template inputs = Inr cfg
             \<and> custom task_template = Some c \<and> c ''ProjectID'' = Some proj
             \<and> c ''Location'' = Some loc \<and> sql_statement task_template = Some stmt
             \<and> query B stmt cfg = Inr (job_id m)
           \<longrightarrow> create TE B task_template inputs
                 = (Inr bs, [ClientCreated (Some (proj, loc)), QuerySubmitted stmt cfg])"
    using p by (simp add: create_def Let_def)
  from pm d g c show ?thesis by blast
qed

lemma stub_make_job_config:
  "make_job_config stub_engine (stub_template ''integer'') (Some [(''x'', 5)])
     = Inr (Some \<lparr>query_parameters = [\<lparr>param_name = ''x'', type_ = ''INT64'', param_value = 5\<rparr>]\<rparr>)"
  by (simp add: make_job_config_def stub_engine_def stub_template_def)

text \<open>The record of job \<open>job_1\<close>, with the stub task and the stub backend.\<close>
theorem metadata_roundtrip_witness:
  "valid_job_id (job_id \<lparr>job_id = py ''job_1''\<rparr>)
   \<and> packb (asdict \<lparr>job_id = py ''job_1''\<rparr>) = Inr job_1_token
   \<and> decode_metadata job_1_token = Inr \<lparr>job_id = PStr (py ''job_1'')\<rparr>
   \<and> snd (get (stub_backend ''DONE'' (Some stub_destination)) stub_table job_1_token)
       = [ClientCreated None, JobRequested (PStr (py ''job_1''))]
   \<and> create stub_engine (stub_backend ''DONE'' (Some stub_destination)) (stub_template ''integer'')
         (Some [(''x'', 5)])
       = (Inr job_1_token,
          [ClientCreated (Some (PStr (py ''proj''), PStr (py ''US''))),
           QuerySubmitted ''SELECT @x''
             (Some \<lparr>query_parameters =
                      [\<lparr>param_name = ''x'', type_ = ''INT64'', param_value = 5\<rparr>]\<rparr>)])"
proof -
  let ?B = "stub_backend ''DONE'' (Some stub_destination)"
  let ?cfg = "Some \<lparr>query_parameters = [\<lparr>param_name = ''x'', type_ = ''INT64'', param_value = 5::int\<rparr>]\<rparr>"
  have h: "valid_job_id (job_id \<lparr>job_id = py ''job_1''\<rparr>)"
    by (simp add: valid_job_id_def is_scalar_def utf8_size_def py_def)
  have t: "packb (asdict \<lparr>job_id = py ''job_1''\<rparr>) = Inr job_1_token"
    by (simp add: job_1_token_def packb_def asdict_def pack_map_header_def pack_str_def py_def
        utf8_encode_cp_def)
  have p1: "make_job_config stub_engine (stub_template ''integer'') (Some [(''x'', 5)]) = Inr ?cfg"
    by (rule stub_make_job_config)
  have p2: "custom (stub_template ''integer'')
          = Some [''ProjectID'' \<mapsto> PStr (py ''proj''), ''Location'' \<mapsto> PStr (py ''US'')]
      \<and> [''ProjectID'' \<mapsto> PStr (py ''proj''), ''Location'' \<mapsto> PStr (py ''US'')] ''ProjectID''
          = Some (PStr (py ''proj''))
      \<and> [''ProjectID'' \<mapsto> PStr (py ''proj''), ''Location'' \<mapsto> PStr (py ''US'')] ''Location''
          = Some (PStr (py ''US''))
      \<and> sql_statement (stub_template ''integer'') = Some ''SELECT @x''
      \<and> query ?B ''SELECT @x'' ?cfg = Inr (job_id \<lparr>job_id = py ''job_1''\<rparr>)"
    by (simp add: stub_template_def stub_backend_def)
  note pre = conjI [OF p1 p2]
  from metadata_roundtrip [OF h, of ?B stub_table stub_engine "stub_template ''integer''"
      "Some [(''x'', 5)]" ?cfg
      "[''ProjectID'' \<mapsto> PStr (py ''proj''), ''Location'' \<mapsto> PStr (py ''US'')]"
      "PStr (py ''proj'')" "PStr (py ''US'')" "''SELECT @x''" ?B]
  obtain token where tok: "packb (asdict \<lparr>job_id = py ''job_1''\<rparr>) = Inr token"
    and d: "decode_metadata token = Inr \<lparr>job_id = PStr (job_id \<lparr>job_id = py ''job_1''\<rparr>)\<rparr>"
    and g: "snd (get ?B stub_table token)
              = [ClientCreated None, JobRequested (PStr (job_id \<lparr>job_id = py ''job_1''\<rparr>))]"
    and c: "create stub_engine ?B (stub_template ''integer'') (Some [(''x'', 5)])
              = (Inr token, [ClientCreated (Some (PStr (py ''proj''), PStr (py ''US''))),
                             QuerySubmitted ''SELECT @x'' ?cfg])"
    using pre by blast
  from tok t have "token = job_1_token" by simp
  with h t d g c show ?thesis by simp
qed

text \<open>
  Claim C2: what the code does when the token decodes, the backend knows the job and its
  status translates to a state other than SUCCEEDED: get raises AttributeError, after
  constructing its client and requesting the job; it returns neither the state nor absent
  outputs.
\<close>
theorem get_not_succeeded_raises:
  assumes "decode_metadata token = Inr m" and "get_job B (job_id m) = Inr job"
    and "convert_to_flyte_state table (state job) \<noteq> SUCCEEDED"
  shows "get B table token = (Inl AttributeError, [ClientCreated None, JobRequested (job_id m)])"
  using assms by (simp add: get_def Let_def)

text \<open>The stub backend reporting RUNNING for \<open>job_1\<close>.\<close>
theorem get_not_succeeded_raises_witness:
  "decode_metadata job_1_token = Inr \<lparr>job_id = PStr (py ''job_1'')\<rparr>
   \<and> convert_to_flyte_state stub_table ''RUNNING'' \<noteq> SUCCEEDED
   \<and> get (stub_backend ''RUNNING'' None) stub_table job_1_token
       = (Inl AttributeError, [ClientCreated None, JobRequested (PStr (py ''job_1''))])"
proof -
  have c: "convert_to_flyte_state stub_table
             (state \<lparr>state = ''RUNNING'', destination = None\<rparr>) \<noteq> SUCCEEDED"
    by (simp add: convert_to_flyte_state_def stub_table_def)
  from get_not_succeeded_raises [OF decode_job_1_token _ c, of "stub_backend ''RUNNING'' None"]
    decode_job_1_token c
  show ?thesis by (simp add: stub_get_job)
qed

text \<open>
  Claim C4: what the code does with a status that the table does not hold. The translation
  gives RUNNING, and get then raises AttributeError instead of returning that state.
\<close>
theorem get_unknown_status_raises:
  assumes "decode_metadata token = Inr m" and "get_job B (job_id m) = Inr job"
    and "table (state job) = None"
  shows "convert_to_flyte_state table (state job) = RUNNING
         \<and> get B table token = (Inl AttributeError, [ClientCreated None, JobRequested (job_id m)])"
  using assms by (simp add: get_def Let_def convert_to_flyte_state_def)

text \<open>The stub backend reporting the status \<open>UNKNOWN_EXOTIC\<close>.\<close>
theorem get_unknown_status_raises_witness:
  "stub_table ''UNKNOWN_EXOTIC'' = None
   \<and> convert_to_flyte_state stub_table ''UNKNOWN_EXOTIC'' = RUNNING
   \<and> get (stub_backend ''UNKNOWN_EXOTIC'' None) stub_table job_1_token
       = (Inl AttributeError, [ClientCreated None, JobRequested (PStr (py ''job_1''))])"
proof -
  have t: "stub_table (state \<lparr>state = ''UNKNOWN_EXOTIC'', destination = None\<rparr>) = None"
    by (simp add: stub_table_def)
  from get_unknown_status_raises [where table = stub_table
        and job = "\<lparr>state = ''UNKNOWN_EXOTIC'', destination = None\<rparr>"
        and B = "stub_backend ''UNKNOWN_EXOTIC'' None", OF decode_job_1_token _ t] t
  show ?thesis by (simp add: stub_get_job)
qed

text \<open>
  Claim C8: what the code does when the backend is fixed at a status that translates to
  FAILED. get depends on nothing but the token, the table and the answers of the backend,
  so each of the repeated calls does the same: it raises AttributeError and returns no
  state.
\<close>
theorem get_failed_status_raises:
  assumes "decode_metadata token = Inr m" and "get_job B (job_id m) = Inr job"
    and "table (state job) = Some FAILED"
  shows "get B table token = (Inl AttributeError, [ClientCreated None, JobRequested (job_id m)])"
  using assms by (simp add: get_def Let_def convert_to_flyte_state_def)

text \<open>The stub backend fixed at the status FAILED.\<close>
theorem get_failed_status_raises_witness:
  "stub_table ''FAILED'' = Some FAILED
   \<and> get (stub_backend ''FAILED'' None) stub_table job_1_token
       = (Inl AttributeError, [ClientCreated None, JobRequested (PStr (py ''job_1''))])"
proof -
  have t: "stub_table (state \<lparr>state = ''FAILED'', destination = None\<rparr>) = Some FAILED"
    by (simp add: stub_table_def)
  from get_failed_status_raises [where table = stub_table
        and job = "\<lparr>state = ''FAILED'', destination = None\<rparr>"
        and B = "stub_backend ''FAILED'' None", OF decode_job_1_token _ t] t
  show ?thesis by (simp add: stub_get_job)
qed

text \<open>
  Against claim C7 as stated: the stub backend reports DONE, which translates to SUCCEEDED,
  for a job without destination table. get raises AttributeError when it reads the project
  of the missing destination, and returns no outputs.
\<close>
theorem get_succeeded_without_destination:
  "convert_to_flyte_state stub_table ''DONE'' = SUCCEEDED
   \<and> get (stub_backend ''DONE'' None) stub_table job_1_token
       = (Inl AttributeError, [ClientCreated None, JobRequested (PStr (py ''job_1''))])"
  by (simp add: get_def decode_job_1_token stub_get_job convert_to_flyte_state_def stub_table_def)

text \<open>
  Claim C7, amended: when the token decodes, the backend knows the job, its status
  translates to SUCCEEDED and the job has a destination table, get returns SUCCEEDED with
  outputs that hold the single key \<open>results\<close>; its value is the structured-dataset
  literal that wraps the locator \<open>bq://project:dataset.table\<close> of the destination, with
  the empty format. Only the three names of the destination are read, no data.
\<close>
theorem get_succeeded_outputs:
  assumes "decode_metadata token = Inr m" and "get_job B (job_id m) = Inr job"
    and "convert_to_flyte_state table (state job) = SUCCEEDED"
    and "destination job = Some d"
  shows "get B table token
           = (Inr \<lparr>res_state = SUCCEEDED,
                   outputs = [(''results'',
                     StructuredDatasetLiteral
                       (''bq://'' @ project d @ '':'' @ dataset_id d @ ''.'' @ table_id d) [])]\<rparr>,
              [ClientCreated None, JobRequested (job_id m)])"
  using assms by (simp add: get_def Let_def to_literal_def output_location_def)

text \<open>The stub backend reporting DONE for \<open>job_1\<close>, with destination \<open>proj:ds.tbl\<close>.\<close>
theorem get_succeeded_outputs_witness:
  "decode_metadata job_1_token = Inr \<lparr>job_id = PStr (py ''job_1'')\<rparr>
   \<and> convert_to_flyte_state stub_table ''DONE'' = SUCCEEDED
   \<and> get (stub_backend ''DONE'' (Some stub_destination)) stub_table job_1_token
       = (Inr \<lparr>res_state = SUCCEEDED,
               outputs = [(''results'', StructuredDatasetLiteral ''bq://proj:ds.tbl'' [])]\<rparr>,
          [ClientCreated None, JobRequested (PStr (py ''job_1''))])"
proof -
  have c: "convert_to_flyte_state stub_table
             (state \<lparr>state = ''DONE'', destination = Some stub_destination\<rparr>) = SUCCEEDED"
    by (simp add: convert_to_flyte_state_def stub_table_def)
  have d: "destination \<lparr>state = ''DONE'', destination = Some stub_destination\<rparr>
             = Some stub_destination"
    by simp
  from get_succeeded_outputs [OF decode_job_1_token _ c d,
      of "stub_backend ''DONE'' (Some stub_destination)"] decode_job_1_token c
  show ?thesis by (simp add: stub_get_job stub_destination_def)
qed

text \<open>
  Against claim C5 as stated: the token below is no encoding of a Metadata record, since
  its \<open>job_id\<close> is the integer 5 and not a string. get decodes it without complaint,
  asks the backend for job 5 and returns the state the backend reports.
\<close>
theorem get_accepts_integer_job_id:
  "unpackb int_token = Inr (PDict [(PStr (py ''job_id''), PInt 5)])
   \<and> get (stub_backend ''DONE'' (Some stub_destination)) stub_table int_token
       = (Inr \<lparr>res_state = SUCCEEDED,
               outputs = [(''results'', StructuredDatasetLiteral ''bq://proj:ds.tbl'' [])]\<rparr>,
          [ClientCreated None, JobRequested (PInt 5)])"
proof -
  have u: "unpackb int_token = Inr (PDict [(PStr (py ''job_id''), PInt 5)])"
    by (simp add: unpackb_def int_token_def read_head_def read_fixed_def
        step_head_def key_allowed_def mk_str_def utf8_decode_def py_def)
  have "get (stub_backend ''DONE'' (Some stub_destination)) stub_table int_token
       = (Inr \<lparr>res_state = SUCCEEDED,
               outputs = [(''results'', StructuredDatasetLiteral ''bq://proj:ds.tbl'' [])]\<rparr>,
          [ClientCreated None, JobRequested (PInt 5)])"
    by (simp add: get_def decode_int_token stub_get_job convert_to_flyte_state_def stub_table_def
        to_literal_def output_location_def stub_destination_def)
  with u show ?thesis by simp
qed

lemma unpackb_ok: "unpackb token = Inr v \<Longrightarrow> obj_ok v"
proof (cases v)
  case (PDict d)
  assume "unpackb token = Inr v"
  with PDict unpackb_dict_distinct show ?thesis by simp
qed simp_all

lemma decode_metadata_failure:
  assumes "\<forall>v. unpackb token \<noteq> Inr (PDict [(PStr (py ''job_id''), v)])"
  shows "decode_metadata token = Inl (case unpackb token of Inl e \<Rightarrow> e | Inr v \<Rightarrow> TypeError)"
proof (cases "unpackb token")
  case (Inl e)
  then show ?thesis by (simp add: decode_metadata_def)
next
  case (Inr v)
  show ?thesis
  proof (cases "Metadata_kwargs v")
    case (Inl e)
    with Metadata_kwargs_error have "e = TypeError" by blast
    with Inl \<open>unpackb token = Inr v\<close> show ?thesis by (simp add: decode_metadata_def)
  next
    case (Inr m)
    from Metadata_kwargs_ok [OF Inr unpackb_ok [OF \<open>unpackb token = Inr v\<close>]]
    have "unpackb token = Inr (PDict [(PStr (py ''job_id''), job_id m)])"
      using \<open>unpackb token = Inr v\<close> by simp
    with assms show ?thesis by blast
  qed
qed

lemma decode_failure_error:
  "(case unpackb token of Inl e \<Rightarrow> e | Inr v \<Rightarrow> TypeError)
     \<in> {ValueError, FormatError, StackError, UnicodeDecodeError, ExtraData, TypeError}"
proof (cases "unpackb token")
  case (Inl e)
  from unpackb_error [OF this] Inl show ?thesis by (auto simp: unpack_errors_def)
next
  case (Inr v)
  then show ?thesis by simp
qed

text \<open>
  Claim C5, amended: a token that does not unpack to a dictionary whose only key is the
  string \<open>job_id\<close> makes get raise the error of the failing step: the error of
  \<open>msgpack.unpackb\<close> when unpacking fails, and the TypeError of the Metadata constructor
  when it does not. In each case that is one of six Python exceptions. get has constructed
  its client by then, requests no job from the backend and returns no state.
\<close>
theorem get_undecodable_token_fails:
  assumes "\<forall>v. unpackb token \<noteq> Inr (PDict [(PStr (py ''job_id''), v)])"
  shows "get B table token
           = (Inl (case unpackb token of Inl e \<Rightarrow> e | Inr v \<Rightarrow> TypeError), [ClientCreated None])
         \<and> (case unpackb token of Inl e \<Rightarrow> e | Inr v \<Rightarrow> TypeError)
             \<in> {ValueError, FormatError, StackError, UnicodeDecodeError, ExtraData, TypeError}"
  using decode_metadata_failure [OF assms] decode_failure_error [of token]
  by (simp add: get_def)

text \<open>The one-byte token \<open>0xC1\<close>, a byte msgpack never uses: the error is FormatError.\<close>
theorem get_undecodable_token_fails_witness:
  "(\<forall>v. unpackb [0xC1] \<noteq> Inr (PDict [(PStr (py ''job_id''), v)]))
   \<and> unpackb [0xC1] = Inl FormatError
   \<and> get (stub_backend ''DONE'' (Some stub_destination)) stub_table [0xC1]
       = (Inl FormatError, [ClientCreated None])"
proof -
  have u: "unpackb [0xC1] = Inl FormatError"
    by (simp add: unpackb_def read_head_def)
  then have h: "\<forall>v. unpackb [0xC1] \<noteq> Inr (PDict [(PStr (py ''job_id''), v)])" by simp
  from get_undecodable_token_fails [OF h, of "stub_backend ''DONE'' (Some stub_destination)" stub_table]
    h u show ?thesis by simp
qed

lemma get_non_dict_token:
  "get (stub_backend ''DONE'' (Some stub_destination)) stub_table [0x05]
     = (Inl TypeError, [ClientCreated None])"
  by (simp add: get_def decode_metadata_def unpackb_def read_head_def step_head_def
      Metadata_kwargs_def)

text \<open>
  Against claim C6 as stated: an input declared with a type outside the table makes create
  raise KeyError, the error of the failed dictionary lookup, and not UnsupportedTypeError.
\<close>
theorem create_unsupported_type_is_key_error:
  "create stub_engine (stub_backend ''DONE'' None) (stub_template ''timedelta'') (Some [(''x'', 5)])
     = (Inl KeyError, [])
   \<and> fst (create stub_engine (stub_backend ''DONE'' None) (stub_template ''timedelta'')
            (Some [(''x'', 5)])) \<noteq> Inl UnsupportedTypeError"
  by (simp add: create_def make_job_config_def stub_engine_def stub_template_def)

lemma scalar_query_parameters_error:
  "scalar_query_parameters pii native = Inl e \<Longrightarrow> e = KeyError"
  by (induction pii native rule: scalar_query_parameters.induct)
    (auto split: option.splits sum.splits)

lemma scalar_query_parameters_unsupported:
  assumes "(name, v) \<in> set native" and "map_of pii name = Some t"
    and "pythonTypeToBigQueryType t = None"
  shows "scalar_query_parameters pii native = Inl KeyError"
proof -
  have "\<exists>e. scalar_query_parameters pii native = Inl e"
    using assms(1)
  proof (induction native)
    case Nil
    then show ?case by simp
  next
    case (Cons nv native)
    obtain n' v' where nv: "nv = (n', v')" by (cases nv)
    show ?case
    proof (cases "(name, v) = nv")
      case True
      with nv assms(2,3) show ?thesis by simp
    next
      case False
      with Cons obtain e where "scalar_query_parameters pii native = Inl e" by auto
      with nv show ?thesis by (simp split: option.splits)
    qed
  qed
  then show ?thesis using scalar_query_parameters_error by blast
qed

text \<open>
  Claim C6, amended: when create is given inputs, the declared types have been guessed and
  the literals converted, and the Python type of some input has no entry in
  \<open>pythonTypeToBigQueryType\<close>, create raises KeyError and there is no backend event: no
  client is constructed and no query is submitted.
\<close>
theorem create_unsupported_type_fails_early:
  assumes "guess_types (guess_python_type TE) (interface_inputs task_template) = Inr pii"
    and "literal_map_to_kwargs TE lm pii = Inr native"
    and "(name, v) \<in> set native" and "map_of pii name = Some t"
    and "pythonTypeToBigQueryType t = None"
  shows "create TE B task_template (Some lm) = (Inl KeyError, [])"
  using assms(1,2) scalar_query_parameters_unsupported [OF assms(3,4,5)]
  by (simp add: create_def make_job_config_def)

lemma make_job_config_fails_early:
  "make_job_config TE task_template inputs = Inl e \<Longrightarrow> create TE B task_template inputs = (Inl e, [])"
  by (simp add: create_def)

text \<open>The stub task with its input \<open>x\<close> declared as a timedelta.\<close>
theorem create_unsupported_type_fails_early_witness:
  "guess_types (guess_python_type stub_engine) (interface_inputs (stub_template ''timedelta''))
     = Inr [(''x'', PyOther ''timedelta'')]
   \<and> literal_map_to_kwargs stub_engine [(''x'', 5)] [(''x'', PyOther ''timedelta'')] = Inr [(''x'', 5)]
   \<and> pythonTypeToBigQueryType (PyOther ''timedelta'') = None
   \<and> create stub_engine (stub_backend ''DONE'' None) (stub_template ''timedelta'') (Some [(''x'', 5)])
       = (Inl KeyError, [])"
proof -
  have g: "guess_types (guess_python_type stub_engine) (interface_inputs (stub_template ''timedelta''))
             = Inr [(''x'', PyOther ''timedelta'')]"
    by (simp add: stub_engine_def stub_template_def)
  have k: "literal_map_to_kwargs stub_engine [(''x'', 5)] [(''x'', PyOther ''timedelta'')]
             = Inr [(''x'', 5)]"
    by (simp add: stub_engine_def)
  have m: "(''x'', 5) \<in> set [(''x'', 5::int)]" by simp
  have l: "map_of [(''x'', PyOther ''timedelta'')] ''x'' = Some (PyOther ''timedelta'')" by simp
  have n: "pythonTypeToBigQueryType (PyOther ''timedelta'') = None" by simp
  from create_unsupported_type_fails_early [OF g k m l n, of "stub_backend ''DONE'' None"] g k n
  show ?thesis by simp
qed

end
